theory Spec2Isabelle
  imports Main "HOL-Library.List_Lexorder" "HOL-Library.Char_ord"
begin

section \<open>Data model of the financial provider\<close>

text \<open>
  The provider of \<^verbatim>\<open>src/context/FinancialProvider.tsx\<close> owns one state container and
  talks to it only through \<^verbatim>\<open>dispatch\<close>. Its operations are modelled as runs that
  return the ordered list of effects they perform (dispatched actions and storage calls)
  together with the way the returned promise settles.

  An Income, Expense or Goal is a JavaScript object built with spread syntax, so it is
  a finite map from property names to values; \<open>m ++ n\<close> is \<^verbatim>\<open>{...m, ...n}\<close>.
  A missing property reads as \<^verbatim>\<open>undefined\<close>, which is \<open>None\<close> here. Identifiers and
  timestamps are strings; the numbers of the examples are whole, and no operation
  computes with a number.
\<close>

datatype jsval = JString string | JNumber int | JBoolean bool | JNull

type_synonym entity = "string \<Rightarrow> jsval option"

text \<open>
  The Plan as the provider reads it: \<^verbatim>\<open>state.userPlan.id\<close>, \<^verbatim>\<open>.income\<close>,
  \<^verbatim>\<open>.expenses\<close>, \<^verbatim>\<open>.goals\<close>. The field \<open>plan_id\<close> is the source's \<^verbatim>\<open>id\<close>.
  The balance, the forecast configuration and the derived data of a Plan are read by
  none of the operations below and are left out.
\<close>

record user_plan =
  plan_id :: string
  income :: "entity list"
  expenses :: "entity list"
  goals :: "entity list"

text \<open>
  Modelled from the spec: the declarations of the loading flags and of the error
  categories (\<^verbatim>\<open>./types\<close> is not among the sources). The provider reads
  \<^verbatim>\<open>state.loading.isLoading\<close>, \<^verbatim>\<open>state.loading.isSaving\<close>, \<^verbatim>\<open>state.error\<close> and
  \<^verbatim>\<open>state.hasUnsavedChanges\<close> and names the categories \<^verbatim>\<open>incomeError\<close>,
  \<^verbatim>\<open>expenseError\<close>, \<^verbatim>\<open>goalError\<close>, \<^verbatim>\<open>forecastError\<close> and \<^verbatim>\<open>generalError\<close>; the
  per-domain loading flags are those of the spec's data model. The error state maps a
  category to its message, if one is recorded.
\<close>

record loading_state =
  isLoading :: bool
  isSaving :: bool
  isLoadingIncome :: bool
  isLoadingExpenses :: bool
  isLoadingGoals :: bool
  isLoadingForecast :: bool

datatype error_key = incomeError | expenseError | goalError | forecastError | generalError

record financial_state =
  userPlan :: user_plan
  loading :: loading_state
  error :: "error_key \<Rightarrow> string option"
  hasUnsavedChanges :: bool

text \<open>
  The action builders of \<^verbatim>\<open>./actions\<close> that the modelled operations call, each
  with the argument the call passes.
\<close>

datatype action =
    SetLoading bool
  | SetSaving bool
  | SetLoadingIncome bool
  | SetLoadingExpenses bool
  | SetLoadingGoals bool
  | ClearError "error_key option"
  | SetIncomeError string
  | SetExpenseError string
  | SetGoalError string
  | AddIncome entity
  | UpdateIncome entity
  | DeleteIncome string
  | AddExpense entity
  | UpdateExpense entity
  | DeleteExpense string
  | AddGoal entity
  | UpdateGoal entity
  | DeleteGoal string
  | SetUserPlan user_plan
  | SaveSuccess
  | SaveError string
  | LoadSuccess user_plan
  | LoadError string

text \<open>
  A value that is thrown or that rejects a promise: an \<^verbatim>\<open>Error\<close> with its message, or
  anything that is not an instance of \<^verbatim>\<open>Error\<close>.
\<close>

datatype thrown = JsError string | NonError

text \<open>What a run does to the outside, in order.\<close>

datatype effect = Dispatch action | StorageLoad | StorageSave user_plan

section \<open>Runs: effects performed, then resolved or rejected\<close>

text \<open>
  \<open>Inl e\<close> is a rejection (or a throw inside the \<^verbatim>\<open>async\<close> body) with \<open>e\<close>;
  \<open>Inr x\<close> is normal completion with \<open>x\<close>. \<^verbatim>\<open>dispatch\<close> itself returns normally:
  it hands the action to the reducer, which is total and never throws. Inputs are plain
  data objects, so spreading them does not throw either. One operation is followed from
  its call to the settling of its promise, with the state its closure captured.
\<close>

type_synonym 'a run = "effect list \<times> (thrown + 'a)"

definition skip :: "unit run" where
  "skip = ([], Inr ())"

definition dispatch :: "action \<Rightarrow> unit run" where
  "dispatch a = ([Dispatch a], Inr ())"

definition throw :: "thrown \<Rightarrow> 'a run" where
  "throw e = ([], Inl e)"

definition bind_run :: "'a run \<Rightarrow> ('a \<Rightarrow> 'b run) \<Rightarrow> 'b run" where
  "bind_run m f =
     (case m of
        (tr, Inl e) \<Rightarrow> (tr, Inl e)
      | (tr, Inr x) \<Rightarrow> (case f x of (tr', r) \<Rightarrow> (tr @ tr', r)))"

fun block :: "unit run list \<Rightarrow> unit run" where
  "block [] = skip"
| "block (m # ms) = bind_run m (\<lambda>_. block ms)"

definition try_catch :: "'a run \<Rightarrow> (thrown \<Rightarrow> 'a run) \<Rightarrow> 'a run" where
  "try_catch body handler =
     (case body of
        (tr, Inl e) \<Rightarrow> (case handler e of (tr', r) \<Rightarrow> (tr @ tr', r))
      | (tr, Inr x) \<Rightarrow> (tr, Inr x))"

definition try_finally :: "'a run \<Rightarrow> unit run \<Rightarrow> 'a run" where
  "try_finally m fin =
     (case m of (tr, r) \<Rightarrow>
        (case fin of
           (tr', Inl e) \<Rightarrow> (tr @ tr', Inl e)
         | (tr', Inr _) \<Rightarrow> (tr @ tr', r)))"

definition effects :: "'a run \<Rightarrow> effect list" where
  "effects m = fst m"

definition outcome :: "'a run \<Rightarrow> thrown + 'a" where
  "outcome m = snd m"

text \<open>\<^verbatim>\<open>error instanceof Error ? error.message : fallback\<close>\<close>

definition errorMessage :: "thrown \<Rightarrow> string \<Rightarrow> string" where
  "errorMessage e fallback = (case e of JsError m \<Rightarrow> m | NonError \<Rightarrow> fallback)"

section \<open>What the operations read from their environment\<close>

text \<open>
  \<open>date_now\<close> is \<^verbatim>\<open>Date.now()\<close>; \<open>random_base36\<close> is
  \<^verbatim>\<open>Math.random().toString(36)\<close> (for instance \<^verbatim>\<open>0.5\<close> prints as \<^verbatim>\<open>0.i\<close>);
  \<open>iso_first\<close> and \<open>iso_second\<close> are the results of the first and the second
  evaluation of \<^verbatim>\<open>new Date().toISOString()\<close> in an object literal.
\<close>

record env =
  date_now :: int
  random_base36 :: string
  iso_first :: string
  iso_second :: string

definition digit_char :: "nat \<Rightarrow> char" where
  "digit_char d = ''0123456789'' ! d"

fun decimal :: "nat \<Rightarrow> string" where
  "decimal n = (if n < 10 then [digit_char n] else decimal (n div 10) @ [digit_char (n mod 10)])"

text \<open>An integer inside a template literal.\<close>

definition number_string :: "int \<Rightarrow> string" where
  "number_string i = (if i < 0 then CHR ''-'' # decimal (nat (- i)) else decimal (nat i))"

text \<open>\<^verbatim>\<open>s.substr(start, len)\<close> for a start inside or past the string.\<close>

definition substr :: "string \<Rightarrow> nat \<Rightarrow> nat \<Rightarrow> string" where
  "substr s start len = take len (drop start s)"

definition generateId :: "env \<Rightarrow> string \<Rightarrow> string" where
  "generateId e prefix =
     prefix @ ''-'' @ number_string (date_now e) @ ''-'' @ substr (random_base36 e) 2 9"

section \<open>Entity operations\<close>

definition newEntity :: "env \<Rightarrow> string \<Rightarrow> entity \<Rightarrow> entity" where
  "newEntity e prefix input =
     [''id'' \<mapsto> JString (generateId e prefix)] ++ input
       ++ [''createdAt'' \<mapsto> JString (iso_first e), ''updatedAt'' \<mapsto> JString (iso_second e)]"

definition mergedEntity :: "env \<Rightarrow> entity \<Rightarrow> entity \<Rightarrow> entity" where
  "mergedEntity e existing input =
     existing ++ input ++ [''updatedAt'' \<mapsto> JString (iso_first e)]"

definition addIncome :: "env \<Rightarrow> entity \<Rightarrow> unit run" where
  "addIncome e incomeInput =
     try_finally
       (try_catch
          (block [dispatch (SetLoadingIncome True),
                  dispatch (ClearError (Some incomeError)),
                  dispatch (AddIncome (newEntity e ''income'' incomeInput))])
          (\<lambda>err. block [dispatch (SetIncomeError (errorMessage err ''Failed to add income'')),
                         throw err]))
       (dispatch (SetLoadingIncome False))"

definition updateIncome :: "env \<Rightarrow> financial_state \<Rightarrow> entity \<Rightarrow> unit run" where
  "updateIncome e state incomeInput =
     try_finally
       (try_catch
          (block [dispatch (SetLoadingIncome True),
                  dispatch (ClearError (Some incomeError)),
                  (case find (\<lambda>inc. inc ''id'' = incomeInput ''id'') (income (userPlan state)) of
                     None \<Rightarrow> throw (JsError ''Income not found'')
                   | Some existingIncome \<Rightarrow>
                       dispatch (UpdateIncome (mergedEntity e existingIncome incomeInput)))])
          (\<lambda>err. block [dispatch (SetIncomeError (errorMessage err ''Failed to update income'')),
                         throw err]))
       (dispatch (SetLoadingIncome False))"

definition deleteIncome :: "string \<Rightarrow> unit run" where
  "deleteIncome incomeId =
     try_finally
       (try_catch
          (block [dispatch (SetLoadingIncome True),
                  dispatch (ClearError (Some incomeError)),
                  dispatch (DeleteIncome incomeId)])
          (\<lambda>err. block [dispatch (SetIncomeError (errorMessage err ''Failed to delete income'')),
                         throw err]))
       (dispatch (SetLoadingIncome False))"

definition addExpense :: "env \<Rightarrow> entity \<Rightarrow> unit run" where
  "addExpense e expenseInput =
     try_finally
       (try_catch
          (block [dispatch (SetLoadingExpenses True),
                  dispatch (ClearError (Some expenseError)),
                  dispatch (AddExpense (newEntity e ''expense'' expenseInput))])
          (\<lambda>err. block [dispatch (SetExpenseError (errorMessage err ''Failed to add expense'')),
                         throw err]))
       (dispatch (SetLoadingExpenses False))"

definition updateExpense :: "env \<Rightarrow> financial_state \<Rightarrow> entity \<Rightarrow> unit run" where
  "updateExpense e state expenseInput =
     try_finally
       (try_catch
          (block [dispatch (SetLoadingExpenses True),
                  dispatch (ClearError (Some expenseError)),
                  (case find (\<lambda>exp. exp ''id'' = expenseInput ''id'') (expenses (userPlan state)) of
                     None \<Rightarrow> throw (JsError ''Expense not found'')
                   | Some existingExpense \<Rightarrow>
                       dispatch (UpdateExpense (mergedEntity e existingExpense expenseInput)))])
          (\<lambda>err. block [dispatch (SetExpenseError (errorMessage err ''Failed to update expense'')),
                         throw err]))
       (dispatch (SetLoadingExpenses False))"

definition deleteExpense :: "string \<Rightarrow> unit run" where
  "deleteExpense expenseId =
     try_finally
       (try_catch
          (block [dispatch (SetLoadingExpenses True),
                  dispatch (ClearError (Some expenseError)),
                  dispatch (DeleteExpense expenseId)])
          (\<lambda>err. block [dispatch (SetExpenseError (errorMessage err ''Failed to delete expense'')),
                         throw err]))
       (dispatch (SetLoadingExpenses False))"

definition addGoal :: "env \<Rightarrow> entity \<Rightarrow> unit run" where
  "addGoal e goalInput =
     try_finally
       (try_catch
          (block [dispatch (SetLoadingGoals True),
                  dispatch (ClearError (Some goalError)),
                  dispatch (AddGoal (newEntity e ''goal'' goalInput))])
          (\<lambda>err. block [dispatch (SetGoalError (errorMessage err ''Failed to add goal'')),
                         throw err]))
       (dispatch (SetLoadingGoals False))"

definition updateGoal :: "env \<Rightarrow> financial_state \<Rightarrow> entity \<Rightarrow> unit run" where
  "updateGoal e state goalInput =
     try_finally
       (try_catch
          (block [dispatch (SetLoadingGoals True),
                  dispatch (ClearError (Some goalError)),
                  (case find (\<lambda>goal. goal ''id'' = goalInput ''id'') (goals (userPlan state)) of
                     None \<Rightarrow> throw (JsError ''Goal not found'')
                   | Some existingGoal \<Rightarrow>
                       dispatch (UpdateGoal (mergedEntity e existingGoal goalInput)))])
          (\<lambda>err. block [dispatch (SetGoalError (errorMessage err ''Failed to update goal'')),
                         throw err]))
       (dispatch (SetLoadingGoals False))"

definition deleteGoal :: "string \<Rightarrow> unit run" where
  "deleteGoal goalId =
     try_finally
       (try_catch
          (block [dispatch (SetLoadingGoals True),
                  dispatch (ClearError (Some goalError)),
                  dispatch (DeleteGoal goalId)])
          (\<lambda>err. block [dispatch (SetGoalError (errorMessage err ''Failed to delete goal'')),
                         throw err]))
       (dispatch (SetLoadingGoals False))"

section \<open>Persistence operations\<close>

text \<open>
  The storage module is outside the provider; its two functions are parameters.
  \<open>saveToStorage plan\<close> and \<open>loadFromStorage\<close> give how the awaited promise
  settles: \<open>Inl e\<close> when it rejects with \<open>e\<close>. A load that finds nothing resolves
  to \<^verbatim>\<open>null\<close>, which is \<open>None\<close>. The dynamic \<^verbatim>\<open>import("./storage")\<close> is taken to
  succeed.
\<close>

definition awaitSave :: "(user_plan \<Rightarrow> thrown + user_plan) \<Rightarrow> user_plan \<Rightarrow> user_plan run" where
  "awaitSave saveToStorage plan = ([StorageSave plan], saveToStorage plan)"

definition awaitLoad :: "(thrown + user_plan option) \<Rightarrow> user_plan option run" where
  "awaitLoad loadFromStorage = ([StorageLoad], loadFromStorage)"

definition saveUserPlan :: "(user_plan \<Rightarrow> thrown + user_plan) \<Rightarrow> financial_state \<Rightarrow> unit run" where
  "saveUserPlan saveToStorage state =
     try_catch
       (block [dispatch (SetSaving True),
               dispatch (ClearError (Some generalError)),
               bind_run (awaitSave saveToStorage (userPlan state)) (\<lambda>savedPlan.
                 block [if plan_id savedPlan \<noteq> plan_id (userPlan state)
                        then dispatch (SetUserPlan savedPlan) else skip,
                        dispatch SaveSuccess])])
       (\<lambda>err. block [dispatch (SaveError (errorMessage err ''Failed to save user plan'')),
                      throw err])"

definition loadUserPlan :: "(thrown + user_plan option) \<Rightarrow> unit run" where
  "loadUserPlan loadFromStorage =
     try_catch
       (block [dispatch (SetLoading True),
               dispatch (ClearError (Some generalError)),
               bind_run (awaitLoad loadFromStorage) (\<lambda>loadedPlan.
                 case loadedPlan of
                   Some plan \<Rightarrow> dispatch (LoadSuccess plan)
                 | None \<Rightarrow> dispatch (SetLoading False))])
       (\<lambda>err. block [dispatch (LoadError (errorMessage err ''Failed to load user plan'')),
                      throw err])"

section \<open>Lifecycle effects\<close>

text \<open>The test that guards the auto-load effect (the state nothing was loaded into yet).\<close>

definition hasDefaultState :: "financial_state \<Rightarrow> bool" where
  "hasDefaultState state =
     (plan_id (userPlan state) = ''default-plan'' \<and>
      length (income (userPlan state)) = 0 \<and>
      length (expenses (userPlan state)) = 0 \<and>
      length (goals (userPlan state)) = 0)"

definition loadData :: "(thrown + user_plan option) \<Rightarrow> unit run" where
  "loadData loadFromStorage =
     try_catch
       (block [dispatch (SetLoading True),
               dispatch (ClearError (Some generalError)),
               bind_run (awaitLoad loadFromStorage) (\<lambda>loadedPlan.
                 case loadedPlan of
                   Some plan \<Rightarrow> dispatch (LoadSuccess plan)
                 | None \<Rightarrow> dispatch (SetLoading False))])
       (\<lambda>err. dispatch (LoadError (errorMessage err ''Failed to load user plan'')))"

text \<open>The body of the mount effect, for the state the provider was mounted with.\<close>

definition autoLoadEffect :: "(thrown + user_plan option) \<Rightarrow> financial_state \<Rightarrow> unit run" where
  "autoLoadEffect loadFromStorage state =
     (if hasDefaultState state then loadData loadFromStorage else skip)"

text \<open>
  The callback handed to \<^verbatim>\<open>setTimeout\<close> by the auto-save effect. It closes over the
  state of the render that scheduled it; a failure is logged to the console only.
\<close>

definition saveData :: "(user_plan \<Rightarrow> thrown + user_plan) \<Rightarrow> financial_state \<Rightarrow> unit run" where
  "saveData saveToStorage state =
     try_catch
       (bind_run (awaitSave saveToStorage (userPlan state)) (\<lambda>savedPlan.
          block [if plan_id savedPlan \<noteq> plan_id (userPlan state)
                 then dispatch (SetUserPlan savedPlan) else skip,
                 dispatch SaveSuccess]))
       (\<lambda>err. skip)"

subsection \<open>Timers and the auto-save effect\<close>

text \<open>
  The dependency array of the auto-save effect: \<^verbatim>\<open>state.userPlan\<close>,
  \<^verbatim>\<open>state.hasUnsavedChanges\<close>, \<^verbatim>\<open>state.loading.isLoading\<close> and
  \<^verbatim>\<open>state.loading.isSaving\<close>. The Plan is compared as an object, not by content: a
  rendered state comes with the reference of the Plan object it holds, and a reducer
  that changes the Plan returns a new object.
\<close>

type_synonym deps = "nat \<times> bool \<times> bool \<times> bool"

definition autoSaveDeps :: "nat \<Rightarrow> financial_state \<Rightarrow> deps" where
  "autoSaveDeps planRef state =
     (planRef, hasUnsavedChanges state, isLoading (loading state), isSaving (loading state))"

text \<open>
  Pending \<^verbatim>\<open>setTimeout\<close> callbacks, the clock in milliseconds, the timer id held by
  the cleanup function that the last run of the effect returned, the dependencies of
  the render in which the effect last ran (none before the mount), and the effects of
  the callbacks that have fired.
\<close>

record timer =
  timer_id :: nat
  fire_at :: nat
  closure :: financial_state

record scheduler =
  clock :: nat
  next_timer :: nat
  timers :: "timer list"
  cleanup :: "nat option"
  lastDeps :: "deps option"
  fired :: "effect list"

definition setTimeout :: "financial_state \<Rightarrow> nat \<Rightarrow> scheduler \<Rightarrow> nat \<times> scheduler" where
  "setTimeout state delay sch =
     (next_timer sch,
      sch\<lparr>next_timer := next_timer sch + 1,
          timers := timers sch @
            [\<lparr>timer_id = next_timer sch, fire_at = clock sch + delay, closure = state\<rparr>]\<rparr>)"

definition clearTimeout :: "nat \<Rightarrow> scheduler \<Rightarrow> scheduler" where
  "clearTimeout timeoutId sch =
     sch\<lparr>timers := filter (\<lambda>tm. timer_id tm \<noteq> timeoutId) (timers sch)\<rparr>"

definition hasRealData :: "financial_state \<Rightarrow> bool" where
  "hasRealData state =
     (plan_id (userPlan state) \<noteq> ''default-plan'' \<or>
      length (income (userPlan state)) > 0 \<or>
      length (expenses (userPlan state)) > 0 \<or>
      length (goals (userPlan state)) > 0)"

text \<open>One run of the auto-save effect for the rendered state.\<close>

definition autoSaveEffect :: "financial_state \<Rightarrow> scheduler \<Rightarrow> scheduler" where
  "autoSaveEffect state sch =
     (if hasRealData state \<and> \<not> isLoading (loading state) \<and> \<not> isSaving (loading state)
         \<and> hasUnsavedChanges state
      then (case setTimeout state 1000 sch of
              (timeoutId, sch') \<Rightarrow> sch'\<lparr>cleanup := Some timeoutId\<rparr>)
      else sch\<lparr>cleanup := None\<rparr>)"

text \<open>
  A render whose dependencies are those of the render in which the effect last ran
  leaves the effect alone. When a dependency changed, the cleanup of the previous run
  is called, then the effect runs for the new state.
\<close>

definition runCleanup :: "scheduler \<Rightarrow> scheduler" where
  "runCleanup sch =
     (case cleanup sch of None \<Rightarrow> sch | Some timeoutId \<Rightarrow> clearTimeout timeoutId sch)"

definition rerender :: "nat \<Rightarrow> financial_state \<Rightarrow> scheduler \<Rightarrow> scheduler" where
  "rerender planRef state sch =
     (if lastDeps sch = Some (autoSaveDeps planRef state) then sch
      else (autoSaveEffect state (runCleanup sch))
             \<lparr>lastDeps := Some (autoSaveDeps planRef state)\<rparr>)"

text \<open>
  Time passes up to \<open>t\<close>: every pending timer that is due fires, in the order the
  timers were set (all have the same delay), and runs \<open>saveData\<close>.
\<close>

definition advance :: "(user_plan \<Rightarrow> thrown + user_plan) \<Rightarrow> nat \<Rightarrow> scheduler \<Rightarrow> scheduler" where
  "advance saveToStorage t sch =
     sch\<lparr>clock := max (clock sch) t,
         timers := filter (\<lambda>tm. \<not> fire_at tm \<le> t) (timers sch),
         fired := fired sch @
           concat (map (\<lambda>tm. effects (saveData saveToStorage (closure tm)))
                       (filter (\<lambda>tm. fire_at tm \<le> t) (timers sch)))\<rparr>"

text \<open>
  A state change: the time it is rendered at, the reference of the Plan object the new
  state holds, and the new state.
\<close>

type_synonym render = "nat \<times> nat \<times> financial_state"

definition depsOf :: "render \<Rightarrow> deps" where
  "depsOf ev = autoSaveDeps (fst (snd ev)) (snd (snd ev))"

text \<open>A burst of state changes, each rendered at its time.\<close>

fun mutations ::
  "(user_plan \<Rightarrow> thrown + user_plan) \<Rightarrow> render list \<Rightarrow> scheduler \<Rightarrow> scheduler" where
  "mutations saveToStorage [] sch = sch"
| "mutations saveToStorage ((t, planRef, s) # rest) sch =
     mutations saveToStorage rest (rerender planRef s (advance saveToStorage t sch))"

text \<open>
  The last change of a burst that re-evaluated the effect, when \<open>ev\<close> was the latest
  one to do so before the changes \<open>rest\<close>.
\<close>

fun lastRun :: "render \<Rightarrow> render list \<Rightarrow> render" where
  "lastRun ev [] = ev"
| "lastRun ev (ev' # rest) =
     (if depsOf ev' = depsOf ev then lastRun ev rest else lastRun ev' rest)"

text \<open>
  Times do not go back, and each change comes less than 1000 ms after the latest
  re-evaluation of the effect (at \<open>tRun\<close>, with dependencies \<open>d\<close>). For changes
  that all alter a dependency this is: each less than 1000 ms after the one before it.
\<close>

fun withinWindow :: "nat \<Rightarrow> nat \<Rightarrow> deps \<Rightarrow> render list \<Rightarrow> bool" where
  "withinWindow tRun tPrev d [] = True"
| "withinWindow tRun tPrev d (ev # rest) =
     (tPrev \<le> fst ev \<and> fst ev < tRun + 1000 \<and>
      (if depsOf ev = d then withinWindow tRun (fst ev) d rest
       else withinWindow (fst ev) (fst ev) (depsOf ev) rest))"

text \<open>One reference names one Plan.\<close>

definition sameObjectSamePlan :: "render list \<Rightarrow> bool" where
  "sameObjectSamePlan evs =
     (\<forall>a\<in>set evs. \<forall>b\<in>set evs.
        fst (snd a) = fst (snd b) \<longrightarrow> userPlan (snd (snd a)) = userPlan (snd (snd b)))"

fun saveCalls :: "effect list \<Rightarrow> user_plan list" where
  "saveCalls [] = []"
| "saveCalls (StorageSave plan # es) = plan # saveCalls es"
| "saveCalls (e # es) = saveCalls es"

fun dispatched :: "effect list \<Rightarrow> action list" where
  "dispatched [] = []"
| "dispatched (Dispatch a # es) = a # dispatched es"
| "dispatched (e # es) = dispatched es"

section \<open>The reducer\<close>

text \<open>
  Modelled from the spec: the reducer \<^verbatim>\<open>enhancedFinancialReducer\<close> of \<^verbatim>\<open>./reducer\<close>,
  which is not among the sources. The spec gives it as a total, pure function from
  state and action to state, and says of its actions: a set-loading or set-saving
  action sets its flag; clear-error clears one category, or all when none is given; a
  set-error, save-error or load-error action records the message in its category (the
  failure path of a save ``does not reset the saving flag''); add, update and delete
  change the matching sequence by identifier, a delete of an absent identifier being
  a no-op, and set the unsaved-changes flag (``set true by any mutating action'');
  replace-plan and load-success replace the Plan wholesale; save-success clears the
  unsaved-changes flag (``set false on successful save''). Since the provider
  dispatches no set-saving(false) after a successful save and no set-loading(false)
  after a successful load, save-success and load-success are taken to end the saving
  and the loading they report.
\<close>

definition hasId :: "string \<Rightarrow> entity \<Rightarrow> bool" where
  "hasId i x = (x ''id'' = Some (JString i))"

definition replaceById :: "entity \<Rightarrow> entity list \<Rightarrow> entity list" where
  "replaceById y xs = map (\<lambda>x. if x ''id'' = y ''id'' then y else x) xs"

fun enhancedFinancialReducer :: "financial_state \<Rightarrow> action \<Rightarrow> financial_state" where
  "enhancedFinancialReducer s (SetLoading b) = s\<lparr>loading := (loading s)\<lparr>isLoading := b\<rparr>\<rparr>"
| "enhancedFinancialReducer s (SetSaving b) = s\<lparr>loading := (loading s)\<lparr>isSaving := b\<rparr>\<rparr>"
| "enhancedFinancialReducer s (SetLoadingIncome b) =
     s\<lparr>loading := (loading s)\<lparr>isLoadingIncome := b\<rparr>\<rparr>"
| "enhancedFinancialReducer s (SetLoadingExpenses b) =
     s\<lparr>loading := (loading s)\<lparr>isLoadingExpenses := b\<rparr>\<rparr>"
| "enhancedFinancialReducer s (SetLoadingGoals b) =
     s\<lparr>loading := (loading s)\<lparr>isLoadingGoals := b\<rparr>\<rparr>"
| "enhancedFinancialReducer s (ClearError None) = s\<lparr>error := (\<lambda>k. None)\<rparr>"
| "enhancedFinancialReducer s (ClearError (Some k)) = s\<lparr>error := (error s)(k := None)\<rparr>"
| "enhancedFinancialReducer s (SetIncomeError m) = s\<lparr>error := (error s)(incomeError \<mapsto> m)\<rparr>"
| "enhancedFinancialReducer s (SetExpenseError m) = s\<lparr>error := (error s)(expenseError \<mapsto> m)\<rparr>"
| "enhancedFinancialReducer s (SetGoalError m) = s\<lparr>error := (error s)(goalError \<mapsto> m)\<rparr>"
| "enhancedFinancialReducer s (AddIncome x) =
     s\<lparr>userPlan := (userPlan s)\<lparr>income := income (userPlan s) @ [x]\<rparr>,
       hasUnsavedChanges := True\<rparr>"
| "enhancedFinancialReducer s (UpdateIncome x) =
     s\<lparr>userPlan := (userPlan s)\<lparr>income := replaceById x (income (userPlan s))\<rparr>,
       hasUnsavedChanges := True\<rparr>"
| "enhancedFinancialReducer s (DeleteIncome i) =
     s\<lparr>userPlan := (userPlan s)\<lparr>income := filter (\<lambda>x. \<not> hasId i x) (income (userPlan s))\<rparr>,
       hasUnsavedChanges := True\<rparr>"
| "enhancedFinancialReducer s (AddExpense x) =
     s\<lparr>userPlan := (userPlan s)\<lparr>expenses := expenses (userPlan s) @ [x]\<rparr>,
       hasUnsavedChanges := True\<rparr>"
| "enhancedFinancialReducer s (UpdateExpense x) =
     s\<lparr>userPlan := (userPlan s)\<lparr>expenses := replaceById x (expenses (userPlan s))\<rparr>,
       hasUnsavedChanges := True\<rparr>"
| "enhancedFinancialReducer s (DeleteExpense i) =
     s\<lparr>userPlan := (userPlan s)\<lparr>expenses := filter (\<lambda>x. \<not> hasId i x) (expenses (userPlan s))\<rparr>,
       hasUnsavedChanges := True\<rparr>"
| "enhancedFinancialReducer s (AddGoal x) =
     s\<lparr>userPlan := (userPlan s)\<lparr>goals := goals (userPlan s) @ [x]\<rparr>,
       hasUnsavedChanges := True\<rparr>"
| "enhancedFinancialReducer s (UpdateGoal x) =
     s\<lparr>userPlan := (userPlan s)\<lparr>goals := replaceById x (goals (userPlan s))\<rparr>,
       hasUnsavedChanges := True\<rparr>"
| "enhancedFinancialReducer s (DeleteGoal i) =
     s\<lparr>userPlan := (userPlan s)\<lparr>goals := filter (\<lambda>x. \<not> hasId i x) (goals (userPlan s))\<rparr>,
       hasUnsavedChanges := True\<rparr>"
| "enhancedFinancialReducer s (SetUserPlan p) = s\<lparr>userPlan := p\<rparr>"
| "enhancedFinancialReducer s SaveSuccess =
     s\<lparr>loading := (loading s)\<lparr>isSaving := False\<rparr>, hasUnsavedChanges := False\<rparr>"
| "enhancedFinancialReducer s (SaveError m) = s\<lparr>error := (error s)(generalError \<mapsto> m)\<rparr>"
| "enhancedFinancialReducer s (LoadSuccess p) =
     s\<lparr>userPlan := p, loading := (loading s)\<lparr>isLoading := False\<rparr>\<rparr>"
| "enhancedFinancialReducer s (LoadError m) = s\<lparr>error := (error s)(generalError \<mapsto> m)\<rparr>"

text \<open>The state after the reducer has consumed, in order, the actions a run dispatched.\<close>

definition stateAfter :: "financial_state \<Rightarrow> 'a run \<Rightarrow> financial_state" where
  "stateAfter s m = foldl enhancedFinancialReducer s (dispatched (effects m))"


text \<open>
  \<^verbatim>\<open>a >= b\<close> for two property values that hold strings, as JavaScript compares
  strings: by code unit, left to right. Timestamps are such strings.
\<close>

definition notEarlier :: "jsval option \<Rightarrow> jsval option \<Rightarrow> bool" where
  "notEarlier a b =
     (case (a, b) of (Some (JString x), Some (JString y)) \<Rightarrow> y \<le> x | _ \<Rightarrow> False)"

text \<open>
  The guard of the auto-save effect, and what the scheduler looks like when the effect
  last ran at time \<open>t\<close> for state \<open>s\<close> with dependencies \<open>d\<close>: only the timer of
  that run is pending if the state passed the guard, and none otherwise.
\<close>

definition eligible :: "financial_state \<Rightarrow> bool" where
  "eligible s =
     (hasRealData s \<and> \<not> isLoading (loading s) \<and> \<not> isSaving (loading s)
      \<and> hasUnsavedChanges s)"

definition settled :: "nat \<Rightarrow> financial_state \<Rightarrow> deps \<Rightarrow> scheduler \<Rightarrow> bool" where
  "settled t s d sch =
     (lastDeps sch = Some d \<and>
      (if eligible s
       then timers sch = [\<lparr>timer_id = next_timer sch - 1, fire_at = t + 1000, closure = s\<rparr>]
            \<and> cleanup sch = Some (next_timer sch - 1) \<and> 0 < next_timer sch
       else timers sch = []))"

text \<open>The last thing a run did.\<close>

definition endsWith :: "effect list \<Rightarrow> effect \<Rightarrow> bool" where
  "endsWith es x = (es \<noteq> [] \<and> last es = x)"

section \<open>Properties\<close>

lemmas run_defs =
  skip_def dispatch_def throw_def bind_run_def try_catch_def try_finally_def
  effects_def outcome_def

lemma addIncome_run:
  "addIncome e i =
     ([Dispatch (SetLoadingIncome True), Dispatch (ClearError (Some incomeError)),
       Dispatch (AddIncome (newEntity e ''income'' i)), Dispatch (SetLoadingIncome False)],
      Inr ())"
  by (simp add: addIncome_def run_defs)

lemma addExpense_run:
  "addExpense e i =
     ([Dispatch (SetLoadingExpenses True), Dispatch (ClearError (Some expenseError)),
       Dispatch (AddExpense (newEntity e ''expense'' i)), Dispatch (SetLoadingExpenses False)],
      Inr ())"
  by (simp add: addExpense_def run_defs)

lemma addGoal_run:
  "addGoal e i =
     ([Dispatch (SetLoadingGoals True), Dispatch (ClearError (Some goalError)),
       Dispatch (AddGoal (newEntity e ''goal'' i)), Dispatch (SetLoadingGoals False)],
      Inr ())"
  by (simp add: addGoal_def run_defs)

lemma deleteIncome_run:
  "deleteIncome i =
     ([Dispatch (SetLoadingIncome True), Dispatch (ClearError (Some incomeError)),
       Dispatch (DeleteIncome i), Dispatch (SetLoadingIncome False)],
      Inr ())"
  by (simp add: deleteIncome_def run_defs)

lemma deleteExpense_run:
  "deleteExpense i =
     ([Dispatch (SetLoadingExpenses True), Dispatch (ClearError (Some expenseError)),
       Dispatch (DeleteExpense i), Dispatch (SetLoadingExpenses False)],
      Inr ())"
  by (simp add: deleteExpense_def run_defs)

lemma deleteGoal_run:
  "deleteGoal i =
     ([Dispatch (SetLoadingGoals True), Dispatch (ClearError (Some goalError)),
       Dispatch (DeleteGoal i), Dispatch (SetLoadingGoals False)],
      Inr ())"
  by (simp add: deleteGoal_def run_defs)

lemma find_None_absent: "(find P xs = None) = (\<forall>x\<in>set xs. \<not> P x)"
  by (auto simp: find_None_iff)

lemma updateIncome_missing:
  assumes "find (\<lambda>inc. inc ''id'' = i ''id'') (income (userPlan s)) = None"
  shows "updateIncome e s i =
     ([Dispatch (SetLoadingIncome True), Dispatch (ClearError (Some incomeError)),
       Dispatch (SetIncomeError ''Income not found''), Dispatch (SetLoadingIncome False)],
      Inl (JsError ''Income not found''))"
  using assms by (simp add: updateIncome_def run_defs errorMessage_def)

lemma updateIncome_found:
  assumes "find (\<lambda>inc. inc ''id'' = i ''id'') (income (userPlan s)) = Some x"
  shows "updateIncome e s i =
     ([Dispatch (SetLoadingIncome True), Dispatch (ClearError (Some incomeError)),
       Dispatch (UpdateIncome (mergedEntity e x i)), Dispatch (SetLoadingIncome False)],
      Inr ())"
  using assms by (simp add: updateIncome_def run_defs)

lemma updateExpense_missing:
  assumes "find (\<lambda>exp. exp ''id'' = i ''id'') (expenses (userPlan s)) = None"
  shows "updateExpense e s i =
     ([Dispatch (SetLoadingExpenses True), Dispatch (ClearError (Some expenseError)),
       Dispatch (SetExpenseError ''Expense not found''), Dispatch (SetLoadingExpenses False)],
      Inl (JsError ''Expense not found''))"
  using assms by (simp add: updateExpense_def run_defs errorMessage_def)

lemma updateExpense_found:
  assumes "find (\<lambda>exp. exp ''id'' = i ''id'') (expenses (userPlan s)) = Some x"
  shows "updateExpense e s i =
     ([Dispatch (SetLoadingExpenses True), Dispatch (ClearError (Some expenseError)),
       Dispatch (UpdateExpense (mergedEntity e x i)), Dispatch (SetLoadingExpenses False)],
      Inr ())"
  using assms by (simp add: updateExpense_def run_defs)

lemma updateGoal_missing:
  assumes "find (\<lambda>goal. goal ''id'' = i ''id'') (goals (userPlan s)) = None"
  shows "updateGoal e s i =
     ([Dispatch (SetLoadingGoals True), Dispatch (ClearError (Some goalError)),
       Dispatch (SetGoalError ''Goal not found''), Dispatch (SetLoadingGoals False)],
      Inl (JsError ''Goal not found''))"
  using assms by (simp add: updateGoal_def run_defs errorMessage_def)

lemma updateGoal_found:
  assumes "find (\<lambda>goal. goal ''id'' = i ''id'') (goals (userPlan s)) = Some x"
  shows "updateGoal e s i =
     ([Dispatch (SetLoadingGoals True), Dispatch (ClearError (Some goalError)),
       Dispatch (UpdateGoal (mergedEntity e x i)), Dispatch (SetLoadingGoals False)],
      Inr ())"
  using assms by (simp add: updateGoal_def run_defs)

subsection \<open>Updating an entity that is not there\<close>

text \<open>
  C1 (amended). When no entity of the matching sequence has the identifier of the
  update input, \<open>updateIncome\<close>, \<open>updateExpense\<close> and \<open>updateGoal\<close> reject with the
  error ``Income not found'', ``Expense not found'' or ``Goal not found''. The
  lookup comes after set-loading(true) and clear-error have been dispatched and before
  any update action: no update action is dispatched, so the Plan is not touched. The
  catch block dispatches the set-error action with the message and the finally block
  dispatches set-loading(false), so the error category and the loading flag do change.
\<close>

theorem update_missing_id_rejected:
  "((\<forall>x\<in>set (income (userPlan s)). x ''id'' \<noteq> i ''id'') \<longrightarrow>
      updateIncome e s i =
        ([Dispatch (SetLoadingIncome True), Dispatch (ClearError (Some incomeError)),
          Dispatch (SetIncomeError ''Income not found''), Dispatch (SetLoadingIncome False)],
         Inl (JsError ''Income not found'')))
   \<and> ((\<forall>x\<in>set (expenses (userPlan s)). x ''id'' \<noteq> i ''id'') \<longrightarrow>
      updateExpense e s i =
        ([Dispatch (SetLoadingExpenses True), Dispatch (ClearError (Some expenseError)),
          Dispatch (SetExpenseError ''Expense not found''), Dispatch (SetLoadingExpenses False)],
         Inl (JsError ''Expense not found'')))
   \<and> ((\<forall>x\<in>set (goals (userPlan s)). x ''id'' \<noteq> i ''id'') \<longrightarrow>
      updateGoal e s i =
        ([Dispatch (SetLoadingGoals True), Dispatch (ClearError (Some goalError)),
          Dispatch (SetGoalError ''Goal not found''), Dispatch (SetLoadingGoals False)],
         Inl (JsError ''Goal not found'')))"
  by (simp add: updateIncome_missing updateExpense_missing updateGoal_missing find_None_absent)

text \<open>
  An expense list holding \<^verbatim>\<open>expense-1\<close> and an update for \<^verbatim>\<open>nonexistent-1\<close>.
\<close>

theorem update_missing_id_rejected_witness:
  "updateExpense
     \<lparr>date_now = 1700000000000, random_base36 = ''0.4fzyo82mvyr'',
      iso_first = ''2023-11-14T22:13:20.000Z'', iso_second = ''2023-11-14T22:13:20.000Z''\<rparr>
     \<lparr>userPlan = \<lparr>plan_id = ''default-plan'', income = [],
        expenses = [[''id'' \<mapsto> JString ''expense-1'', ''amount'' \<mapsto> JNumber 20]], goals = []\<rparr>,
      loading = \<lparr>isLoading = False, isSaving = False, isLoadingIncome = False,
        isLoadingExpenses = False, isLoadingGoals = False, isLoadingForecast = False\<rparr>,
      error = (\<lambda>k. None), hasUnsavedChanges = False\<rparr>
     [''id'' \<mapsto> JString ''nonexistent-1'', ''amount'' \<mapsto> JNumber 50]
   = ([Dispatch (SetLoadingExpenses True), Dispatch (ClearError (Some expenseError)),
       Dispatch (SetExpenseError ''Expense not found''), Dispatch (SetLoadingExpenses False)],
      Inl (JsError ''Expense not found''))"
  using update_missing_id_rejected
    [of "\<lparr>userPlan = \<lparr>plan_id = ''default-plan'', income = [],
        expenses = [[''id'' \<mapsto> JString ''expense-1'', ''amount'' \<mapsto> JNumber 20]], goals = []\<rparr>,
      loading = \<lparr>isLoading = False, isSaving = False, isLoadingIncome = False,
        isLoadingExpenses = False, isLoadingGoals = False, isLoadingForecast = False\<rparr>,
      error = (\<lambda>k. None), hasUnsavedChanges = False\<rparr>"
     "[''id'' \<mapsto> JString ''nonexistent-1'', ''amount'' \<mapsto> JNumber 50]"]
  by simp

text \<open>
  The claim as first stated has the failure come before any dispatch and leave the
  state as it was. On an empty Plan, the update of \<^verbatim>\<open>nonexistent-1\<close> dispatches four
  actions, two of them before the lookup, and one of them records the message in
  \<^verbatim>\<open>expenseError\<close>.
\<close>

theorem update_missing_id_counterexample:
  "effects (updateExpense
     \<lparr>date_now = 1700000000000, random_base36 = ''0.4fzyo82mvyr'',
      iso_first = ''2023-11-14T22:13:20.000Z'', iso_second = ''2023-11-14T22:13:20.000Z''\<rparr>
     \<lparr>userPlan = \<lparr>plan_id = ''default-plan'', income = [], expenses = [], goals = []\<rparr>,
      loading = \<lparr>isLoading = False, isSaving = False, isLoadingIncome = False,
        isLoadingExpenses = False, isLoadingGoals = False, isLoadingForecast = False\<rparr>,
      error = (\<lambda>k. None), hasUnsavedChanges = False\<rparr>
     [''id'' \<mapsto> JString ''nonexistent-1'', ''amount'' \<mapsto> JNumber 50])
   = [Dispatch (SetLoadingExpenses True), Dispatch (ClearError (Some expenseError)),
      Dispatch (SetExpenseError ''Expense not found''), Dispatch (SetLoadingExpenses False)]"
  by (simp add: updateExpense_def run_defs errorMessage_def)

subsection \<open>The loading flag on every path\<close>

lemma updateIncome_last:
  "endsWith (effects (updateIncome e s i)) (Dispatch (SetLoadingIncome False))"
  by (cases "find (\<lambda>inc. inc ''id'' = i ''id'') (income (userPlan s))")
     (simp_all add: updateIncome_missing updateIncome_found effects_def endsWith_def)

lemma updateExpense_last:
  "endsWith (effects (updateExpense e s i)) (Dispatch (SetLoadingExpenses False))"
  by (cases "find (\<lambda>exp. exp ''id'' = i ''id'') (expenses (userPlan s))")
     (simp_all add: updateExpense_missing updateExpense_found effects_def endsWith_def)

lemma updateGoal_last:
  "endsWith (effects (updateGoal e s i)) (Dispatch (SetLoadingGoals False))"
  by (cases "find (\<lambda>goal. goal ''id'' = i ''id'') (goals (userPlan s))")
     (simp_all add: updateGoal_missing updateGoal_found effects_def endsWith_def)

text \<open>
  C9. Each of the nine entity operations ends, whether it resolves or rejects, with the
  dispatch of set-loading(false) for its own domain: every run has effects, and the
  last of them is that dispatch, for every state, input and identifier.
\<close>

theorem entity_ops_end_by_clearing_loading:
  "endsWith (effects (addIncome e i)) (Dispatch (SetLoadingIncome False))
   \<and> endsWith (effects (updateIncome e s i)) (Dispatch (SetLoadingIncome False))
   \<and> endsWith (effects (deleteIncome k)) (Dispatch (SetLoadingIncome False))
   \<and> endsWith (effects (addExpense e i)) (Dispatch (SetLoadingExpenses False))
   \<and> endsWith (effects (updateExpense e s i)) (Dispatch (SetLoadingExpenses False))
   \<and> endsWith (effects (deleteExpense k)) (Dispatch (SetLoadingExpenses False))
   \<and> endsWith (effects (addGoal e i)) (Dispatch (SetLoadingGoals False))
   \<and> endsWith (effects (updateGoal e s i)) (Dispatch (SetLoadingGoals False))
   \<and> endsWith (effects (deleteGoal k)) (Dispatch (SetLoadingGoals False))"
  using updateIncome_last [of e s i] updateExpense_last [of e s i] updateGoal_last [of e s i]
  by (simp add: addIncome_run addExpense_run addGoal_run deleteIncome_run deleteExpense_run
      deleteGoal_run effects_def endsWith_def)

text \<open>
  The same input on a rejecting and on a resolving path: an update for \<^verbatim>\<open>expense-1\<close>
  read as an income (not found) and as an expense (found).
\<close>

theorem entity_ops_end_by_clearing_loading_witness:
  "outcome (updateIncome
      \<lparr>date_now = 1700000000000, random_base36 = ''0.4fzyo82mvyr'',
        iso_first = ''2023-11-14T22:13:20.000Z'', iso_second = ''2023-11-14T22:13:20.000Z''\<rparr>
      \<lparr>userPlan = \<lparr>plan_id = ''default-plan'', income = [],
          expenses = [[''id'' \<mapsto> JString ''expense-1'', ''amount'' \<mapsto> JNumber 20]],
          goals = []\<rparr>,
        loading = \<lparr>isLoading = False, isSaving = False, isLoadingIncome = False,
          isLoadingExpenses = False, isLoadingGoals = False, isLoadingForecast = False\<rparr>,
        error = (\<lambda>k. None), hasUnsavedChanges = False\<rparr>
      [''id'' \<mapsto> JString ''expense-1'', ''amount'' \<mapsto> JNumber 25])
     = Inl (JsError ''Income not found'')
   \<and> endsWith (effects (updateIncome
      \<lparr>date_now = 1700000000000, random_base36 = ''0.4fzyo82mvyr'',
        iso_first = ''2023-11-14T22:13:20.000Z'', iso_second = ''2023-11-14T22:13:20.000Z''\<rparr>
      \<lparr>userPlan = \<lparr>plan_id = ''default-plan'', income = [],
          expenses = [[''id'' \<mapsto> JString ''expense-1'', ''amount'' \<mapsto> JNumber 20]],
          goals = []\<rparr>,
        loading = \<lparr>isLoading = False, isSaving = False, isLoadingIncome = False,
          isLoadingExpenses = False, isLoadingGoals = False, isLoadingForecast = False\<rparr>,
        error = (\<lambda>k. None), hasUnsavedChanges = False\<rparr>
      [''id'' \<mapsto> JString ''expense-1'', ''amount'' \<mapsto> JNumber 25]))
     (Dispatch (SetLoadingIncome False))
   \<and> outcome (updateExpense
      \<lparr>date_now = 1700000000000, random_base36 = ''0.4fzyo82mvyr'',
        iso_first = ''2023-11-14T22:13:20.000Z'', iso_second = ''2023-11-14T22:13:20.000Z''\<rparr>
      \<lparr>userPlan = \<lparr>plan_id = ''default-plan'', income = [],
          expenses = [[''id'' \<mapsto> JString ''expense-1'', ''amount'' \<mapsto> JNumber 20]],
          goals = []\<rparr>,
        loading = \<lparr>isLoading = False, isSaving = False, isLoadingIncome = False,
          isLoadingExpenses = False, isLoadingGoals = False, isLoadingForecast = False\<rparr>,
        error = (\<lambda>k. None), hasUnsavedChanges = False\<rparr>
      [''id'' \<mapsto> JString ''expense-1'', ''amount'' \<mapsto> JNumber 25])
     = Inr ()
   \<and> endsWith (effects (updateExpense
      \<lparr>date_now = 1700000000000, random_base36 = ''0.4fzyo82mvyr'',
        iso_first = ''2023-11-14T22:13:20.000Z'', iso_second = ''2023-11-14T22:13:20.000Z''\<rparr>
      \<lparr>userPlan = \<lparr>plan_id = ''default-plan'', income = [],
          expenses = [[''id'' \<mapsto> JString ''expense-1'', ''amount'' \<mapsto> JNumber 20]],
          goals = []\<rparr>,
        loading = \<lparr>isLoading = False, isSaving = False, isLoadingIncome = False,
          isLoadingExpenses = False, isLoadingGoals = False, isLoadingForecast = False\<rparr>,
        error = (\<lambda>k. None), hasUnsavedChanges = False\<rparr>
      [''id'' \<mapsto> JString ''expense-1'', ''amount'' \<mapsto> JNumber 25]))
     (Dispatch (SetLoadingExpenses False))"
  using entity_ops_end_by_clearing_loading [of
      "\<lparr>date_now = 1700000000000, random_base36 = ''0.4fzyo82mvyr'',
        iso_first = ''2023-11-14T22:13:20.000Z'', iso_second = ''2023-11-14T22:13:20.000Z''\<rparr>"
      "[''id'' \<mapsto> JString ''expense-1'', ''amount'' \<mapsto> JNumber 25]"
      "\<lparr>userPlan = \<lparr>plan_id = ''default-plan'', income = [],
          expenses = [[''id'' \<mapsto> JString ''expense-1'', ''amount'' \<mapsto> JNumber 20]],
          goals = []\<rparr>,
        loading = \<lparr>isLoading = False, isSaving = False, isLoadingIncome = False,
          isLoadingExpenses = False, isLoadingGoals = False, isLoadingForecast = False\<rparr>,
        error = (\<lambda>k. None), hasUnsavedChanges = False\<rparr>"]
  by (simp add: updateIncome_def updateExpense_def run_defs)

subsection \<open>Adding and deleting never fail\<close>


subsection \<open>The entity a create operation builds\<close>

lemma newEntity_id:
  "input ''id'' = None \<Longrightarrow>
   newEntity e prefix input ''id'' =
     Some (JString (prefix @ ''-'' @ number_string (date_now e) @ ''-''
                    @ take 9 (drop 2 (random_base36 e))))"
  by (simp add: newEntity_def generateId_def substr_def map_add_def)

lemma newEntity_stamps:
  "newEntity e prefix input ''createdAt'' = Some (JString (iso_first e))"
  "newEntity e prefix input ''updatedAt'' = Some (JString (iso_second e))"
  by (simp_all add: newEntity_def)

lemma newEntity_other:
  "k \<noteq> ''id'' \<Longrightarrow> k \<noteq> ''createdAt'' \<Longrightarrow> k \<noteq> ''updatedAt'' \<Longrightarrow>
   newEntity e prefix input k = input k"
  by (simp add: newEntity_def map_add_def split: option.splits)

text \<open>
  C2 (amended). For a create input that carries no \<^verbatim>\<open>id\<close> of its own, \<open>addIncome\<close>,
  \<open>addExpense\<close> and \<open>addGoal\<close> dispatch an entity whose identifier is the prefix
  (\<^verbatim>\<open>income\<close>, \<^verbatim>\<open>expense\<close>, \<^verbatim>\<open>goal\<close>), a dash, \<^verbatim>\<open>Date.now()\<close> in decimal, a dash, and
  the characters of \<^verbatim>\<open>Math.random().toString(36)\<close> from position 2 on, at most nine
  of them. \<^verbatim>\<open>createdAt\<close> and \<^verbatim>\<open>updatedAt\<close> are the ISO timestamps of two successive
  clock reads, equal whenever the two reads agree. Every other field is the input's.
\<close>

theorem created_entity_shape:
  "input ''id'' = None \<longrightarrow>
     dispatched (effects (addIncome e input)) =
       [SetLoadingIncome True, ClearError (Some incomeError),
        AddIncome (newEntity e ''income'' input), SetLoadingIncome False]
     \<and> dispatched (effects (addExpense e input)) =
       [SetLoadingExpenses True, ClearError (Some expenseError),
        AddExpense (newEntity e ''expense'' input), SetLoadingExpenses False]
     \<and> dispatched (effects (addGoal e input)) =
       [SetLoadingGoals True, ClearError (Some goalError),
        AddGoal (newEntity e ''goal'' input), SetLoadingGoals False]
     \<and> newEntity e prefix input ''id'' =
         Some (JString (prefix @ ''-'' @ number_string (date_now e) @ ''-''
                        @ take 9 (drop 2 (random_base36 e))))
     \<and> length (take 9 (drop 2 (random_base36 e))) \<le> 9
     \<and> newEntity e prefix input ''createdAt'' = Some (JString (iso_first e))
     \<and> newEntity e prefix input ''updatedAt'' = Some (JString (iso_second e))
     \<and> (iso_first e = iso_second e \<longrightarrow>
          newEntity e prefix input ''createdAt'' = newEntity e prefix input ''updatedAt'')
     \<and> (\<forall>k. k \<noteq> ''id'' \<and> k \<noteq> ''createdAt'' \<and> k \<noteq> ''updatedAt'' \<longrightarrow>
          newEntity e prefix input k = input k)"
  by (simp add: newEntity_id newEntity_stamps newEntity_other addIncome_run addExpense_run
      addGoal_run effects_def)

text \<open>
  An income of 100 from a job, created at epoch millisecond 1700000000000 with the
  random draw \<^verbatim>\<open>0.4fzyo82mvyr\<close> and both clock reads in the same millisecond.
\<close>

theorem created_entity_shape_witness:
  "newEntity
     \<lparr>date_now = 1700000000000, random_base36 = ''0.4fzyo82mvyr'',
      iso_first = ''2023-11-14T22:13:20.000Z'', iso_second = ''2023-11-14T22:13:20.000Z''\<rparr>
     ''income'' [''amount'' \<mapsto> JNumber 100, ''source'' \<mapsto> JString ''job''] ''id''
   = Some (JString ''income-1700000000000-4fzyo82mv'')
   \<and> newEntity
     \<lparr>date_now = 1700000000000, random_base36 = ''0.4fzyo82mvyr'',
      iso_first = ''2023-11-14T22:13:20.000Z'', iso_second = ''2023-11-14T22:13:20.000Z''\<rparr>
     ''income'' [''amount'' \<mapsto> JNumber 100, ''source'' \<mapsto> JString ''job''] ''createdAt''
   = newEntity
     \<lparr>date_now = 1700000000000, random_base36 = ''0.4fzyo82mvyr'',
      iso_first = ''2023-11-14T22:13:20.000Z'', iso_second = ''2023-11-14T22:13:20.000Z''\<rparr>
     ''income'' [''amount'' \<mapsto> JNumber 100, ''source'' \<mapsto> JString ''job''] ''updatedAt''"
  using created_entity_shape
    [of "[''amount'' \<mapsto> JNumber 100, ''source'' \<mapsto> JString ''job'']"
        "\<lparr>date_now = 1700000000000, random_base36 = ''0.4fzyo82mvyr'',
          iso_first = ''2023-11-14T22:13:20.000Z'', iso_second = ''2023-11-14T22:13:20.000Z''\<rparr>"
        "''income''"]
  by (simp add: number_string_def digit_char_def)

text \<open>
  The claim as first stated promises nine random characters, an identifier that is not
  in the sequence before the call, and equal timestamps. Take the random draw 0.5,
  which prints as \<^verbatim>\<open>0.i\<close>, and a clock that ticks between the two reads: the
  identifier ends in the single character \<^verbatim>\<open>i\<close>, it is the identifier of the income
  that was created in the same millisecond from the same draw and is already in the
  sequence, and \<^verbatim>\<open>createdAt\<close> differs from \<^verbatim>\<open>updatedAt\<close>.
\<close>

theorem created_entity_counterexample:
  "newEntity
     \<lparr>date_now = 1700000000000, random_base36 = ''0.i'',
      iso_first = ''2023-11-14T22:13:20.000Z'', iso_second = ''2023-11-14T22:13:20.001Z''\<rparr>
     ''income'' [''amount'' \<mapsto> JNumber 100, ''source'' \<mapsto> JString ''job''] ''id''
   = Some (JString ''income-1700000000000-i'')
   \<and> newEntity
     \<lparr>date_now = 1700000000000, random_base36 = ''0.i'',
      iso_first = ''2023-11-14T22:13:20.000Z'', iso_second = ''2023-11-14T22:13:20.001Z''\<rparr>
     ''income'' [''amount'' \<mapsto> JNumber 100, ''source'' \<mapsto> JString ''job''] ''id''
   \<in> set (map (\<lambda>x. x ''id'')
        [newEntity
           \<lparr>date_now = 1700000000000, random_base36 = ''0.i'',
            iso_first = ''2023-11-14T22:13:20.000Z'',
            iso_second = ''2023-11-14T22:13:20.000Z''\<rparr>
           ''income'' [''amount'' \<mapsto> JNumber 7, ''source'' \<mapsto> JString ''gift'']])
   \<and> newEntity
     \<lparr>date_now = 1700000000000, random_base36 = ''0.i'',
      iso_first = ''2023-11-14T22:13:20.000Z'', iso_second = ''2023-11-14T22:13:20.001Z''\<rparr>
     ''income'' [''amount'' \<mapsto> JNumber 100, ''source'' \<mapsto> JString ''job''] ''createdAt''
   \<noteq> newEntity
     \<lparr>date_now = 1700000000000, random_base36 = ''0.i'',
      iso_first = ''2023-11-14T22:13:20.000Z'', iso_second = ''2023-11-14T22:13:20.001Z''\<rparr>
     ''income'' [''amount'' \<mapsto> JNumber 100, ''source'' \<mapsto> JString ''job''] ''updatedAt''"
  by (simp add: newEntity_def generateId_def number_string_def substr_def digit_char_def
      map_add_def)

subsection \<open>The entity an update operation builds\<close>

lemma mergedEntity_updatedAt:
  "mergedEntity e existing input ''updatedAt'' = Some (JString (iso_first e))"
  by (simp add: mergedEntity_def)

lemma mergedEntity_other:
  "k \<noteq> ''updatedAt'' \<Longrightarrow>
   mergedEntity e existing input k = (case input k of None \<Rightarrow> existing k | Some v \<Rightarrow> Some v)"
  by (simp add: mergedEntity_def map_add_def)

text \<open>
  C7 (amended). When the update input names an identifier that is in the sequence,
  the operation dispatches the first entity with that identifier overlaid with the
  input and re-stamped: a field other than \<^verbatim>\<open>updatedAt\<close> that the input does not
  supply keeps its value, a field the input supplies takes the input's value, and
  \<^verbatim>\<open>updatedAt\<close> is the ISO timestamp of the clock at the update. The new \<^verbatim>\<open>updatedAt\<close>
  is greater than or equal to the prior one exactly when that clock reading is; the
  code does not compare the two.
\<close>

theorem update_merges_and_restamps:
  "(find (\<lambda>x. x ''id'' = input ''id'') (income (userPlan s)) = Some existing \<longrightarrow>
      updateIncome e s input =
        ([Dispatch (SetLoadingIncome True), Dispatch (ClearError (Some incomeError)),
          Dispatch (UpdateIncome (mergedEntity e existing input)),
          Dispatch (SetLoadingIncome False)], Inr ()))
   \<and> (find (\<lambda>x. x ''id'' = input ''id'') (expenses (userPlan s)) = Some existing \<longrightarrow>
      updateExpense e s input =
        ([Dispatch (SetLoadingExpenses True), Dispatch (ClearError (Some expenseError)),
          Dispatch (UpdateExpense (mergedEntity e existing input)),
          Dispatch (SetLoadingExpenses False)], Inr ()))
   \<and> (find (\<lambda>x. x ''id'' = input ''id'') (goals (userPlan s)) = Some existing \<longrightarrow>
      updateGoal e s input =
        ([Dispatch (SetLoadingGoals True), Dispatch (ClearError (Some goalError)),
          Dispatch (UpdateGoal (mergedEntity e existing input)),
          Dispatch (SetLoadingGoals False)], Inr ()))
   \<and> (\<forall>k. k \<noteq> ''updatedAt'' \<and> input k = None \<longrightarrow>
        mergedEntity e existing input k = existing k)
   \<and> (\<forall>k v. k \<noteq> ''updatedAt'' \<and> input k = Some v \<longrightarrow>
        mergedEntity e existing input k = Some v)
   \<and> mergedEntity e existing input ''updatedAt'' = Some (JString (iso_first e))
   \<and> notEarlier (mergedEntity e existing input ''updatedAt'') (existing ''updatedAt'')
       = notEarlier (Some (JString (iso_first e))) (existing ''updatedAt'')"
  by (simp add: updateIncome_found updateExpense_found updateGoal_found
      mergedEntity_updatedAt mergedEntity_other)

text \<open>
  A goal saved on 1 November 2023 whose target is changed on 14 November 2023: the name
  and the creation stamp stay, the target is the input's, the stamp is the clock's.
\<close>

theorem update_merges_and_restamps_witness:
  "updateGoal
     \<lparr>date_now = 1700000000000, random_base36 = ''0.4fzyo82mvyr'',
      iso_first = ''2023-11-14T22:13:20.000Z'', iso_second = ''2023-11-14T22:13:20.000Z''\<rparr>
     \<lparr>userPlan = \<lparr>plan_id = ''plan-1'', income = [], expenses = [],
        goals = [[''id'' \<mapsto> JString ''goal-1'', ''name'' \<mapsto> JString ''car'',
                  ''target'' \<mapsto> JNumber 9000,
                  ''createdAt'' \<mapsto> JString ''2023-11-01T08:00:00.000Z'',
                  ''updatedAt'' \<mapsto> JString ''2023-11-01T08:00:00.000Z'']]\<rparr>,
      loading = \<lparr>isLoading = False, isSaving = False, isLoadingIncome = False,
        isLoadingExpenses = False, isLoadingGoals = False, isLoadingForecast = False\<rparr>,
      error = (\<lambda>k. None), hasUnsavedChanges = False\<rparr>
     [''id'' \<mapsto> JString ''goal-1'', ''target'' \<mapsto> JNumber 9500]
   = ([Dispatch (SetLoadingGoals True), Dispatch (ClearError (Some goalError)),
       Dispatch (UpdateGoal (mergedEntity
         \<lparr>date_now = 1700000000000, random_base36 = ''0.4fzyo82mvyr'',
          iso_first = ''2023-11-14T22:13:20.000Z'', iso_second = ''2023-11-14T22:13:20.000Z''\<rparr>
         [''id'' \<mapsto> JString ''goal-1'', ''name'' \<mapsto> JString ''car'',
          ''target'' \<mapsto> JNumber 9000,
          ''createdAt'' \<mapsto> JString ''2023-11-01T08:00:00.000Z'',
          ''updatedAt'' \<mapsto> JString ''2023-11-01T08:00:00.000Z'']
         [''id'' \<mapsto> JString ''goal-1'', ''target'' \<mapsto> JNumber 9500])),
       Dispatch (SetLoadingGoals False)], Inr ())
   \<and> mergedEntity
         \<lparr>date_now = 1700000000000, random_base36 = ''0.4fzyo82mvyr'',
          iso_first = ''2023-11-14T22:13:20.000Z'', iso_second = ''2023-11-14T22:13:20.000Z''\<rparr>
         [''id'' \<mapsto> JString ''goal-1'', ''name'' \<mapsto> JString ''car'',
          ''target'' \<mapsto> JNumber 9000,
          ''createdAt'' \<mapsto> JString ''2023-11-01T08:00:00.000Z'',
          ''updatedAt'' \<mapsto> JString ''2023-11-01T08:00:00.000Z'']
         [''id'' \<mapsto> JString ''goal-1'', ''target'' \<mapsto> JNumber 9500] ''name''
       = Some (JString ''car'')
   \<and> mergedEntity
         \<lparr>date_now = 1700000000000, random_base36 = ''0.4fzyo82mvyr'',
          iso_first = ''2023-11-14T22:13:20.000Z'', iso_second = ''2023-11-14T22:13:20.000Z''\<rparr>
         [''id'' \<mapsto> JString ''goal-1'', ''name'' \<mapsto> JString ''car'',
          ''target'' \<mapsto> JNumber 9000,
          ''createdAt'' \<mapsto> JString ''2023-11-01T08:00:00.000Z'',
          ''updatedAt'' \<mapsto> JString ''2023-11-01T08:00:00.000Z'']
         [''id'' \<mapsto> JString ''goal-1'', ''target'' \<mapsto> JNumber 9500] ''target''
       = Some (JNumber 9500)
   \<and> notEarlier
        (mergedEntity
         \<lparr>date_now = 1700000000000, random_base36 = ''0.4fzyo82mvyr'',
          iso_first = ''2023-11-14T22:13:20.000Z'', iso_second = ''2023-11-14T22:13:20.000Z''\<rparr>
         [''id'' \<mapsto> JString ''goal-1'', ''name'' \<mapsto> JString ''car'',
          ''target'' \<mapsto> JNumber 9000,
          ''createdAt'' \<mapsto> JString ''2023-11-01T08:00:00.000Z'',
          ''updatedAt'' \<mapsto> JString ''2023-11-01T08:00:00.000Z'']
         [''id'' \<mapsto> JString ''goal-1'', ''target'' \<mapsto> JNumber 9500] ''updatedAt'')
        ([''id'' \<mapsto> JString ''goal-1'', ''name'' \<mapsto> JString ''car'',
          ''target'' \<mapsto> JNumber 9000,
          ''createdAt'' \<mapsto> JString ''2023-11-01T08:00:00.000Z'',
          ''updatedAt'' \<mapsto> JString ''2023-11-01T08:00:00.000Z''] ''updatedAt'')"
  using update_merges_and_restamps
    [of "[''id'' \<mapsto> JString ''goal-1'', ''target'' \<mapsto> JNumber 9500]"
        "\<lparr>userPlan = \<lparr>plan_id = ''plan-1'', income = [], expenses = [],
          goals = [[''id'' \<mapsto> JString ''goal-1'', ''name'' \<mapsto> JString ''car'',
                    ''target'' \<mapsto> JNumber 9000,
                    ''createdAt'' \<mapsto> JString ''2023-11-01T08:00:00.000Z'',
                    ''updatedAt'' \<mapsto> JString ''2023-11-01T08:00:00.000Z'']]\<rparr>,
          loading = \<lparr>isLoading = False, isSaving = False, isLoadingIncome = False,
            isLoadingExpenses = False, isLoadingGoals = False, isLoadingForecast = False\<rparr>,
          error = (\<lambda>k. None), hasUnsavedChanges = False\<rparr>"
        "[''id'' \<mapsto> JString ''goal-1'', ''name'' \<mapsto> JString ''car'',
          ''target'' \<mapsto> JNumber 9000,
          ''createdAt'' \<mapsto> JString ''2023-11-01T08:00:00.000Z'',
          ''updatedAt'' \<mapsto> JString ''2023-11-01T08:00:00.000Z'']"
        "\<lparr>date_now = 1700000000000, random_base36 = ''0.4fzyo82mvyr'',
          iso_first = ''2023-11-14T22:13:20.000Z'', iso_second = ''2023-11-14T22:13:20.000Z''\<rparr>"]
  by (simp add: notEarlier_def)

text \<open>
  The claim as first stated has the new \<^verbatim>\<open>updatedAt\<close> never below the prior one. A
  goal whose stored stamp is 1 January 2030 (a Plan written by a device whose clock
  runs ahead, or before the clock was set back) and an update at 14 November 2023: the
  update resolves and the dispatched goal carries the earlier stamp.
\<close>

theorem update_restamp_counterexample:
  "outcome (updateGoal
     \<lparr>date_now = 1700000000000, random_base36 = ''0.4fzyo82mvyr'',
      iso_first = ''2023-11-14T22:13:20.000Z'', iso_second = ''2023-11-14T22:13:20.000Z''\<rparr>
     \<lparr>userPlan = \<lparr>plan_id = ''plan-1'', income = [], expenses = [],
        goals = [[''id'' \<mapsto> JString ''goal-1'', ''name'' \<mapsto> JString ''car'',
                  ''createdAt'' \<mapsto> JString ''2030-01-01T00:00:00.000Z'',
                  ''updatedAt'' \<mapsto> JString ''2030-01-01T00:00:00.000Z'']]\<rparr>,
      loading = \<lparr>isLoading = False, isSaving = False, isLoadingIncome = False,
        isLoadingExpenses = False, isLoadingGoals = False, isLoadingForecast = False\<rparr>,
      error = (\<lambda>k. None), hasUnsavedChanges = False\<rparr>
     [''id'' \<mapsto> JString ''goal-1'', ''name'' \<mapsto> JString ''boat'']) = Inr ()
   \<and> dispatched (effects (updateGoal
     \<lparr>date_now = 1700000000000, random_base36 = ''0.4fzyo82mvyr'',
      iso_first = ''2023-11-14T22:13:20.000Z'', iso_second = ''2023-11-14T22:13:20.000Z''\<rparr>
     \<lparr>userPlan = \<lparr>plan_id = ''plan-1'', income = [], expenses = [],
        goals = [[''id'' \<mapsto> JString ''goal-1'', ''name'' \<mapsto> JString ''car'',
                  ''createdAt'' \<mapsto> JString ''2030-01-01T00:00:00.000Z'',
                  ''updatedAt'' \<mapsto> JString ''2030-01-01T00:00:00.000Z'']]\<rparr>,
      loading = \<lparr>isLoading = False, isSaving = False, isLoadingIncome = False,
        isLoadingExpenses = False, isLoadingGoals = False, isLoadingForecast = False\<rparr>,
      error = (\<lambda>k. None), hasUnsavedChanges = False\<rparr>
     [''id'' \<mapsto> JString ''goal-1'', ''name'' \<mapsto> JString ''boat''])) ! 2
     = UpdateGoal (mergedEntity
         \<lparr>date_now = 1700000000000, random_base36 = ''0.4fzyo82mvyr'',
          iso_first = ''2023-11-14T22:13:20.000Z'', iso_second = ''2023-11-14T22:13:20.000Z''\<rparr>
         [''id'' \<mapsto> JString ''goal-1'', ''name'' \<mapsto> JString ''car'',
          ''createdAt'' \<mapsto> JString ''2030-01-01T00:00:00.000Z'',
          ''updatedAt'' \<mapsto> JString ''2030-01-01T00:00:00.000Z'']
         [''id'' \<mapsto> JString ''goal-1'', ''name'' \<mapsto> JString ''boat''])
   \<and> \<not> notEarlier
        (mergedEntity
         \<lparr>date_now = 1700000000000, random_base36 = ''0.4fzyo82mvyr'',
          iso_first = ''2023-11-14T22:13:20.000Z'', iso_second = ''2023-11-14T22:13:20.000Z''\<rparr>
         [''id'' \<mapsto> JString ''goal-1'', ''name'' \<mapsto> JString ''car'',
          ''createdAt'' \<mapsto> JString ''2030-01-01T00:00:00.000Z'',
          ''updatedAt'' \<mapsto> JString ''2030-01-01T00:00:00.000Z'']
         [''id'' \<mapsto> JString ''goal-1'', ''name'' \<mapsto> JString ''boat''] ''updatedAt'')
        ([''id'' \<mapsto> JString ''goal-1'', ''name'' \<mapsto> JString ''car'',
          ''createdAt'' \<mapsto> JString ''2030-01-01T00:00:00.000Z'',
          ''updatedAt'' \<mapsto> JString ''2030-01-01T00:00:00.000Z''] ''updatedAt'')"
  by (simp add: updateGoal_def run_defs mergedEntity_updatedAt notEarlier_def)

subsection \<open>Saving the Plan by hand\<close>

lemma saveUserPlan_rejected:
  assumes "saveToStorage (userPlan s) = Inl err"
  shows "saveUserPlan saveToStorage s =
    ([Dispatch (SetSaving True), Dispatch (ClearError (Some generalError)),
      StorageSave (userPlan s),
      Dispatch (SaveError (errorMessage err ''Failed to save user plan''))], Inl err)"
  using assms by (simp add: saveUserPlan_def awaitSave_def run_defs)

lemma saveUserPlan_resolved:
  assumes "saveToStorage (userPlan s) = Inr savedPlan"
  shows "saveUserPlan saveToStorage s =
    ([Dispatch (SetSaving True), Dispatch (ClearError (Some generalError)),
      StorageSave (userPlan s)]
     @ (if plan_id savedPlan \<noteq> plan_id (userPlan s)
        then [Dispatch (SetUserPlan savedPlan)] else [])
     @ [Dispatch SaveSuccess], Inr ())"
  using assms by (simp add: saveUserPlan_def awaitSave_def run_defs)

text \<open>
  C3. When the storage save rejects, \<open>saveUserPlan\<close> has dispatched set-saving(true)
  and clear-error, dispatches save-error with the message (the error's own, or the
  fixed fallback for a value that is not an Error) and rejects with the same failure;
  it dispatches no set-saving(false), so after the reducer has consumed these actions
  \<^verbatim>\<open>generalError\<close> holds the message and \<^verbatim>\<open>isSaving\<close> is still true. When the save
  resolves, replace-plan is dispatched only if the returned identifier differs from the
  current one, then save-success; afterwards the Plan is the returned one in that case
  and the current one otherwise, and the unsaved-changes flag is cleared.
\<close>

theorem save_failure_and_success:
  "(saveToStorage (userPlan s) = Inl err \<longrightarrow>
      saveUserPlan saveToStorage s =
        ([Dispatch (SetSaving True), Dispatch (ClearError (Some generalError)),
          StorageSave (userPlan s),
          Dispatch (SaveError (errorMessage err ''Failed to save user plan''))], Inl err)
      \<and> error (stateAfter s (saveUserPlan saveToStorage s)) generalError
          = Some (errorMessage err ''Failed to save user plan'')
      \<and> isSaving (loading (stateAfter s (saveUserPlan saveToStorage s))) = True)
   \<and> (saveToStorage (userPlan s) = Inr savedPlan \<longrightarrow>
      saveUserPlan saveToStorage s =
        ([Dispatch (SetSaving True), Dispatch (ClearError (Some generalError)),
          StorageSave (userPlan s)]
         @ (if plan_id savedPlan \<noteq> plan_id (userPlan s)
            then [Dispatch (SetUserPlan savedPlan)] else [])
         @ [Dispatch SaveSuccess], Inr ())
      \<and> userPlan (stateAfter s (saveUserPlan saveToStorage s))
          = (if plan_id savedPlan \<noteq> plan_id (userPlan s) then savedPlan else userPlan s)
      \<and> hasUnsavedChanges (stateAfter s (saveUserPlan saveToStorage s)) = False)"
  by (simp add: saveUserPlan_rejected saveUserPlan_resolved stateAfter_def effects_def)

text \<open>
  A default Plan with one income: a save that rejects with ``QuotaExceededError'', and
  a save that returns the Plan under the new identifier \<^verbatim>\<open>plan-42\<close>.
\<close>

theorem save_failure_and_success_witness:
  "outcome (saveUserPlan (\<lambda>p. Inl (JsError ''QuotaExceededError''))
      \<lparr>userPlan = \<lparr>plan_id = ''default-plan'',
          income = [[''id'' \<mapsto> JString ''income-1'', ''amount'' \<mapsto> JNumber 100]],
          expenses = [], goals = []\<rparr>,
        loading = \<lparr>isLoading = False, isSaving = False, isLoadingIncome = False,
          isLoadingExpenses = False, isLoadingGoals = False, isLoadingForecast = False\<rparr>,
        error = (\<lambda>k. None), hasUnsavedChanges = True\<rparr>) = Inl (JsError ''QuotaExceededError'')
   \<and> isSaving (loading (stateAfter
      \<lparr>userPlan = \<lparr>plan_id = ''default-plan'',
          income = [[''id'' \<mapsto> JString ''income-1'', ''amount'' \<mapsto> JNumber 100]],
          expenses = [], goals = []\<rparr>,
        loading = \<lparr>isLoading = False, isSaving = False, isLoadingIncome = False,
          isLoadingExpenses = False, isLoadingGoals = False, isLoadingForecast = False\<rparr>,
        error = (\<lambda>k. None), hasUnsavedChanges = True\<rparr>
      (saveUserPlan (\<lambda>p. Inl (JsError ''QuotaExceededError''))
      \<lparr>userPlan = \<lparr>plan_id = ''default-plan'',
          income = [[''id'' \<mapsto> JString ''income-1'', ''amount'' \<mapsto> JNumber 100]],
          expenses = [], goals = []\<rparr>,
        loading = \<lparr>isLoading = False, isSaving = False, isLoadingIncome = False,
          isLoadingExpenses = False, isLoadingGoals = False, isLoadingForecast = False\<rparr>,
        error = (\<lambda>k. None), hasUnsavedChanges = True\<rparr>)))
   \<and> error (stateAfter
      \<lparr>userPlan = \<lparr>plan_id = ''default-plan'',
          income = [[''id'' \<mapsto> JString ''income-1'', ''amount'' \<mapsto> JNumber 100]],
          expenses = [], goals = []\<rparr>,
        loading = \<lparr>isLoading = False, isSaving = False, isLoadingIncome = False,
          isLoadingExpenses = False, isLoadingGoals = False, isLoadingForecast = False\<rparr>,
        error = (\<lambda>k. None), hasUnsavedChanges = True\<rparr>
      (saveUserPlan (\<lambda>p. Inl (JsError ''QuotaExceededError''))
      \<lparr>userPlan = \<lparr>plan_id = ''default-plan'',
          income = [[''id'' \<mapsto> JString ''income-1'', ''amount'' \<mapsto> JNumber 100]],
          expenses = [], goals = []\<rparr>,
        loading = \<lparr>isLoading = False, isSaving = False, isLoadingIncome = False,
          isLoadingExpenses = False, isLoadingGoals = False, isLoadingForecast = False\<rparr>,
        error = (\<lambda>k. None), hasUnsavedChanges = True\<rparr>)) generalError = Some ''QuotaExceededError''
   \<and> plan_id (userPlan (stateAfter
      \<lparr>userPlan = \<lparr>plan_id = ''default-plan'',
          income = [[''id'' \<mapsto> JString ''income-1'', ''amount'' \<mapsto> JNumber 100]],
          expenses = [], goals = []\<rparr>,
        loading = \<lparr>isLoading = False, isSaving = False, isLoadingIncome = False,
          isLoadingExpenses = False, isLoadingGoals = False, isLoadingForecast = False\<rparr>,
        error = (\<lambda>k. None), hasUnsavedChanges = True\<rparr>
      (saveUserPlan (\<lambda>p. Inr (p\<lparr>plan_id := ''plan-42''\<rparr>))
      \<lparr>userPlan = \<lparr>plan_id = ''default-plan'',
          income = [[''id'' \<mapsto> JString ''income-1'', ''amount'' \<mapsto> JNumber 100]],
          expenses = [], goals = []\<rparr>,
        loading = \<lparr>isLoading = False, isSaving = False, isLoadingIncome = False,
          isLoadingExpenses = False, isLoadingGoals = False, isLoadingForecast = False\<rparr>,
        error = (\<lambda>k. None), hasUnsavedChanges = True\<rparr>))) = ''plan-42''
   \<and> \<not> hasUnsavedChanges (stateAfter
      \<lparr>userPlan = \<lparr>plan_id = ''default-plan'',
          income = [[''id'' \<mapsto> JString ''income-1'', ''amount'' \<mapsto> JNumber 100]],
          expenses = [], goals = []\<rparr>,
        loading = \<lparr>isLoading = False, isSaving = False, isLoadingIncome = False,
          isLoadingExpenses = False, isLoadingGoals = False, isLoadingForecast = False\<rparr>,
        error = (\<lambda>k. None), hasUnsavedChanges = True\<rparr>
      (saveUserPlan (\<lambda>p. Inr (p\<lparr>plan_id := ''plan-42''\<rparr>))
      \<lparr>userPlan = \<lparr>plan_id = ''default-plan'',
          income = [[''id'' \<mapsto> JString ''income-1'', ''amount'' \<mapsto> JNumber 100]],
          expenses = [], goals = []\<rparr>,
        loading = \<lparr>isLoading = False, isSaving = False, isLoadingIncome = False,
          isLoadingExpenses = False, isLoadingGoals = False, isLoadingForecast = False\<rparr>,
        error = (\<lambda>k. None), hasUnsavedChanges = True\<rparr>))"
  using save_failure_and_success [of
      "\<lambda>p. Inl (JsError ''QuotaExceededError'')"
      "\<lparr>userPlan = \<lparr>plan_id = ''default-plan'',
          income = [[''id'' \<mapsto> JString ''income-1'', ''amount'' \<mapsto> JNumber 100]],
          expenses = [], goals = []\<rparr>,
        loading = \<lparr>isLoading = False, isSaving = False, isLoadingIncome = False,
          isLoadingExpenses = False, isLoadingGoals = False, isLoadingForecast = False\<rparr>,
        error = (\<lambda>k. None), hasUnsavedChanges = True\<rparr>"
      "JsError ''QuotaExceededError''"]
    save_failure_and_success [of
      "\<lambda>p. Inr (p\<lparr>plan_id := ''plan-42''\<rparr>)"
      "\<lparr>userPlan = \<lparr>plan_id = ''default-plan'',
          income = [[''id'' \<mapsto> JString ''income-1'', ''amount'' \<mapsto> JNumber 100]],
          expenses = [], goals = []\<rparr>,
        loading = \<lparr>isLoading = False, isSaving = False, isLoadingIncome = False,
          isLoadingExpenses = False, isLoadingGoals = False, isLoadingForecast = False\<rparr>,
        error = (\<lambda>k. None), hasUnsavedChanges = True\<rparr>"
      _
      "\<lparr>plan_id = ''plan-42'',
          income = [[''id'' \<mapsto> JString ''income-1'', ''amount'' \<mapsto> JNumber 100]],
          expenses = [], goals = []\<rparr>"]
  by (simp add: outcome_def stateAfter_def effects_def errorMessage_def)

subsection \<open>Loading at mount and loading by hand\<close>

lemma loadData_run:
  "loadData ld =
     (case ld of
        Inl err \<Rightarrow>
          ([Dispatch (SetLoading True), Dispatch (ClearError (Some generalError)), StorageLoad,
            Dispatch (LoadError (errorMessage err ''Failed to load user plan''))], Inr ())
      | Inr None \<Rightarrow>
          ([Dispatch (SetLoading True), Dispatch (ClearError (Some generalError)), StorageLoad,
            Dispatch (SetLoading False)], Inr ())
      | Inr (Some plan) \<Rightarrow>
          ([Dispatch (SetLoading True), Dispatch (ClearError (Some generalError)), StorageLoad,
            Dispatch (LoadSuccess plan)], Inr ()))"
  by (simp add: loadData_def awaitLoad_def run_defs split: sum.splits option.splits)

lemma loadUserPlan_run:
  "loadUserPlan ld =
     (case ld of
        Inl err \<Rightarrow>
          ([Dispatch (SetLoading True), Dispatch (ClearError (Some generalError)), StorageLoad,
            Dispatch (LoadError (errorMessage err ''Failed to load user plan''))], Inl err)
      | Inr None \<Rightarrow>
          ([Dispatch (SetLoading True), Dispatch (ClearError (Some generalError)), StorageLoad,
            Dispatch (SetLoading False)], Inr ())
      | Inr (Some plan) \<Rightarrow>
          ([Dispatch (SetLoading True), Dispatch (ClearError (Some generalError)), StorageLoad,
            Dispatch (LoadSuccess plan)], Inr ()))"
  by (simp add: loadUserPlan_def awaitLoad_def run_defs split: sum.splits option.splits)

text \<open>
  C6. The mount effect does something only when the Plan has the sentinel identifier
  and its three sequences are empty; otherwise it performs no effect at all. When it
  runs, it dispatches set-loading(true) and clear-error and calls the storage load: on
  a Plan it dispatches load-success, on no Plan it dispatches set-loading(false) only,
  and on a failure it dispatches load-error with the message and still completes
  normally. The manual \<open>loadUserPlan\<close> dispatches the same load-error on a failure
  and then rejects with that failure.
\<close>

theorem auto_load_on_mount:
  "hasDefaultState s =
     (plan_id (userPlan s) = ''default-plan'' \<and> income (userPlan s) = []
      \<and> expenses (userPlan s) = [] \<and> goals (userPlan s) = [])
   \<and> (\<not> hasDefaultState s \<longrightarrow> autoLoadEffect ld s = ([], Inr ()))
   \<and> (hasDefaultState s \<and> ld = Inr (Some plan) \<longrightarrow>
        autoLoadEffect ld s =
          ([Dispatch (SetLoading True), Dispatch (ClearError (Some generalError)), StorageLoad,
            Dispatch (LoadSuccess plan)], Inr ()))
   \<and> (hasDefaultState s \<and> ld = Inr None \<longrightarrow>
        autoLoadEffect ld s =
          ([Dispatch (SetLoading True), Dispatch (ClearError (Some generalError)), StorageLoad,
            Dispatch (SetLoading False)], Inr ()))
   \<and> (hasDefaultState s \<and> ld = Inl err \<longrightarrow>
        autoLoadEffect ld s =
          ([Dispatch (SetLoading True), Dispatch (ClearError (Some generalError)), StorageLoad,
            Dispatch (LoadError (errorMessage err ''Failed to load user plan''))], Inr ()))
   \<and> (ld = Inl err \<longrightarrow>
        loadUserPlan ld =
          ([Dispatch (SetLoading True), Dispatch (ClearError (Some generalError)), StorageLoad,
            Dispatch (LoadError (errorMessage err ''Failed to load user plan''))], Inl err))"
  by (simp add: autoLoadEffect_def loadData_run loadUserPlan_run skip_def hasDefaultState_def)

text \<open>
  A freshly mounted provider whose storage is empty, one whose storage is unavailable,
  and a provider mounted with an income already in the Plan.
\<close>

theorem auto_load_on_mount_witness:
  "autoLoadEffect (Inr None)
      \<lparr>userPlan = \<lparr>plan_id = ''default-plan'', income = [], expenses = [], goals = []\<rparr>,
        loading = \<lparr>isLoading = False, isSaving = False, isLoadingIncome = False,
          isLoadingExpenses = False, isLoadingGoals = False, isLoadingForecast = False\<rparr>,
        error = (\<lambda>k. None), hasUnsavedChanges = False\<rparr>
     = ([Dispatch (SetLoading True), Dispatch (ClearError (Some generalError)), StorageLoad,
         Dispatch (SetLoading False)], Inr ())
   \<and> autoLoadEffect (Inl (JsError ''storage unavailable''))
      \<lparr>userPlan = \<lparr>plan_id = ''default-plan'', income = [], expenses = [], goals = []\<rparr>,
        loading = \<lparr>isLoading = False, isSaving = False, isLoadingIncome = False,
          isLoadingExpenses = False, isLoadingGoals = False, isLoadingForecast = False\<rparr>,
        error = (\<lambda>k. None), hasUnsavedChanges = False\<rparr>
     = ([Dispatch (SetLoading True), Dispatch (ClearError (Some generalError)), StorageLoad,
         Dispatch (LoadError ''storage unavailable'')], Inr ())
   \<and> autoLoadEffect (Inr None)
      \<lparr>userPlan = \<lparr>plan_id = ''default-plan'',
          income = [[''id'' \<mapsto> JString ''income-1'', ''amount'' \<mapsto> JNumber 100]],
          expenses = [], goals = []\<rparr>,
        loading = \<lparr>isLoading = False, isSaving = False, isLoadingIncome = False,
          isLoadingExpenses = False, isLoadingGoals = False, isLoadingForecast = False\<rparr>,
        error = (\<lambda>k. None), hasUnsavedChanges = True\<rparr>
     = ([], Inr ())
   \<and> outcome (loadUserPlan (Inl (JsError ''storage unavailable'')))
     = Inl (JsError ''storage unavailable'')"
  using auto_load_on_mount [of
      "\<lparr>userPlan = \<lparr>plan_id = ''default-plan'', income = [], expenses = [], goals = []\<rparr>,
        loading = \<lparr>isLoading = False, isSaving = False, isLoadingIncome = False,
          isLoadingExpenses = False, isLoadingGoals = False, isLoadingForecast = False\<rparr>,
        error = (\<lambda>k. None), hasUnsavedChanges = False\<rparr>"
      "Inr None"]
    auto_load_on_mount [of
      "\<lparr>userPlan = \<lparr>plan_id = ''default-plan'', income = [], expenses = [], goals = []\<rparr>,
        loading = \<lparr>isLoading = False, isSaving = False, isLoadingIncome = False,
          isLoadingExpenses = False, isLoadingGoals = False, isLoadingForecast = False\<rparr>,
        error = (\<lambda>k. None), hasUnsavedChanges = False\<rparr>"
      "Inl (JsError ''storage unavailable'')" _ "JsError ''storage unavailable''"]
    auto_load_on_mount [of
      "\<lparr>userPlan = \<lparr>plan_id = ''default-plan'',
          income = [[''id'' \<mapsto> JString ''income-1'', ''amount'' \<mapsto> JNumber 100]],
          expenses = [], goals = []\<rparr>,
        loading = \<lparr>isLoading = False, isSaving = False, isLoadingIncome = False,
          isLoadingExpenses = False, isLoadingGoals = False, isLoadingForecast = False\<rparr>,
        error = (\<lambda>k. None), hasUnsavedChanges = True\<rparr>"
      "Inr None"]
  by (simp add: hasDefaultState_def errorMessage_def outcome_def)

subsection \<open>Deleting\<close>

lemma filter_absent:
  "\<forall>x\<in>set xs. x ''id'' \<noteq> Some (JString k) \<Longrightarrow> filter (\<lambda>x. \<not> hasId k x) xs = xs"
  by (induction xs) (simp_all add: hasId_def)

text \<open>
  C8. \<open>deleteIncome\<close>, \<open>deleteExpense\<close> and \<open>deleteGoal\<close> read no state: for every
  identifier they dispatch set-loading(true), clear-error, the delete action and
  set-loading(false), and resolve. When no entity of the sequence has the identifier,
  the Plan after the reducer has consumed these actions is the Plan before; and
  deleting the same identifier a second time changes nothing more.
\<close>

theorem delete_unconditional_noop_when_absent:
  "deleteIncome k =
     ([Dispatch (SetLoadingIncome True), Dispatch (ClearError (Some incomeError)),
       Dispatch (DeleteIncome k), Dispatch (SetLoadingIncome False)], Inr ())
   \<and> deleteExpense k =
     ([Dispatch (SetLoadingExpenses True), Dispatch (ClearError (Some expenseError)),
       Dispatch (DeleteExpense k), Dispatch (SetLoadingExpenses False)], Inr ())
   \<and> deleteGoal k =
     ([Dispatch (SetLoadingGoals True), Dispatch (ClearError (Some goalError)),
       Dispatch (DeleteGoal k), Dispatch (SetLoadingGoals False)], Inr ())
   \<and> ((\<forall>x\<in>set (income (userPlan s)). x ''id'' \<noteq> Some (JString k)) \<longrightarrow>
        userPlan (stateAfter s (deleteIncome k)) = userPlan s)
   \<and> ((\<forall>x\<in>set (expenses (userPlan s)). x ''id'' \<noteq> Some (JString k)) \<longrightarrow>
        userPlan (stateAfter s (deleteExpense k)) = userPlan s)
   \<and> ((\<forall>x\<in>set (goals (userPlan s)). x ''id'' \<noteq> Some (JString k)) \<longrightarrow>
        userPlan (stateAfter s (deleteGoal k)) = userPlan s)
   \<and> userPlan (stateAfter (stateAfter s (deleteIncome k)) (deleteIncome k))
        = userPlan (stateAfter s (deleteIncome k))
   \<and> userPlan (stateAfter (stateAfter s (deleteExpense k)) (deleteExpense k))
        = userPlan (stateAfter s (deleteExpense k))
   \<and> userPlan (stateAfter (stateAfter s (deleteGoal k)) (deleteGoal k))
        = userPlan (stateAfter s (deleteGoal k))"
  by (simp add: deleteIncome_run deleteExpense_run deleteGoal_run stateAfter_def effects_def
      filter_absent)

text \<open>A Plan that holds \<^verbatim>\<open>income-1\<close>, and the deletion of \<^verbatim>\<open>income-2\<close>.\<close>

theorem delete_unconditional_noop_when_absent_witness:
  "userPlan (stateAfter
      \<lparr>userPlan = \<lparr>plan_id = ''default-plan'',
          income = [[''id'' \<mapsto> JString ''income-1'', ''amount'' \<mapsto> JNumber 100]],
          expenses = [], goals = []\<rparr>,
        loading = \<lparr>isLoading = False, isSaving = False, isLoadingIncome = False,
          isLoadingExpenses = False, isLoadingGoals = False, isLoadingForecast = False\<rparr>,
        error = (\<lambda>k. None), hasUnsavedChanges = True\<rparr>
      (deleteIncome ''income-2''))
   = userPlan
      \<lparr>userPlan = \<lparr>plan_id = ''default-plan'',
          income = [[''id'' \<mapsto> JString ''income-1'', ''amount'' \<mapsto> JNumber 100]],
          expenses = [], goals = []\<rparr>,
        loading = \<lparr>isLoading = False, isSaving = False, isLoadingIncome = False,
          isLoadingExpenses = False, isLoadingGoals = False, isLoadingForecast = False\<rparr>,
        error = (\<lambda>k. None), hasUnsavedChanges = True\<rparr>"
  (is "userPlan (stateAfter ?s _) = _")
proof -
  have "\<forall>x\<in>set (income (userPlan ?s)). x ''id'' \<noteq> Some (JString ''income-2'')"
    by simp
  with delete_unconditional_noop_when_absent [of "''income-2''" ?s] show ?thesis
    by blast
qed

subsection \<open>When the auto-save effect sets a timer\<close>

lemma hasRealData_iff: "hasRealData s = (\<not> hasDefaultState s)"
  by (auto simp: hasRealData_def hasDefaultState_def)

lemma autoSaveEffect_eligible:
  "eligible s \<Longrightarrow>
   autoSaveEffect s sch =
     sch\<lparr>next_timer := next_timer sch + 1,
         timers := timers sch @ [\<lparr>timer_id = next_timer sch, fire_at = clock sch + 1000, closure = s\<rparr>],
         cleanup := Some (next_timer sch)\<rparr>"
  by (simp add: autoSaveEffect_def eligible_def setTimeout_def)

lemma autoSaveEffect_not_eligible:
  "\<not> eligible s \<Longrightarrow> autoSaveEffect s sch = sch\<lparr>cleanup := None\<rparr>"
  by (auto simp: autoSaveEffect_def eligible_def)

text \<open>
  C4. One run of the auto-save effect adds a timer exactly when the Plan is not in the
  default shape (sentinel identifier and three empty sequences), nothing is loading,
  nothing is saving and there are unsaved changes. While \<^verbatim>\<open>isLoading\<close> or \<^verbatim>\<open>isSaving\<close>
  is true, when the Plan has the default shape, or when there are no unsaved changes,
  the pending timers are left as they are and no cleanup is returned. When all four
  conditions hold, the one timer added is due 1000 ms after the current time, carries
  the rendered state, and is the one the returned cleanup clears.
\<close>

theorem auto_save_eligibility:
  "(length (timers (autoSaveEffect s sch)) = length (timers sch) + 1) =
     (\<not> hasDefaultState s \<and> \<not> isLoading (loading s) \<and> \<not> isSaving (loading s)
      \<and> hasUnsavedChanges s)
   \<and> (isLoading (loading s) \<or> isSaving (loading s) \<or> hasDefaultState s
        \<or> \<not> hasUnsavedChanges s \<longrightarrow>
        timers (autoSaveEffect s sch) = timers sch \<and> cleanup (autoSaveEffect s sch) = None)
   \<and> (\<not> hasDefaultState s \<and> \<not> isLoading (loading s) \<and> \<not> isSaving (loading s)
        \<and> hasUnsavedChanges s \<longrightarrow>
        timers (autoSaveEffect s sch) =
          timers sch @ [\<lparr>timer_id = next_timer sch, fire_at = clock sch + 1000, closure = s\<rparr>]
        \<and> cleanup (autoSaveEffect s sch) = Some (next_timer sch))"
proof (cases "eligible s")
  case True
  then show ?thesis
    by (simp add: autoSaveEffect_eligible) (simp add: eligible_def hasRealData_iff)
next
  case False
  then show ?thesis
    by (simp add: autoSaveEffect_not_eligible) (auto simp: eligible_def hasRealData_iff)
qed

text \<open>
  A Plan with one unsaved income gets a timer due at 1000; the same Plan while a save
  is in flight, and a Plan in the default shape, get none.
\<close>

theorem auto_save_eligibility_witness:
  "map fire_at (timers (autoSaveEffect
      \<lparr>userPlan = \<lparr>plan_id = ''default-plan'',
          income = [[''id'' \<mapsto> JString ''income-1'', ''amount'' \<mapsto> JNumber 100]],
          expenses = [], goals = []\<rparr>,
        loading = \<lparr>isLoading = False, isSaving = False, isLoadingIncome = False,
          isLoadingExpenses = False, isLoadingGoals = False, isLoadingForecast = False\<rparr>,
        error = (\<lambda>k. None), hasUnsavedChanges = True\<rparr>
      \<lparr>clock = 0, next_timer = 0, timers = [], cleanup = None,
        lastDeps = Some (0, False, False, False), fired = []\<rparr>)) = [1000]
   \<and> timers (autoSaveEffect
      \<lparr>userPlan = \<lparr>plan_id = ''default-plan'',
          income = [[''id'' \<mapsto> JString ''income-1'', ''amount'' \<mapsto> JNumber 100]],
          expenses = [], goals = []\<rparr>,
        loading = \<lparr>isLoading = False, isSaving = True, isLoadingIncome = False,
          isLoadingExpenses = False, isLoadingGoals = False, isLoadingForecast = False\<rparr>,
        error = (\<lambda>k. None), hasUnsavedChanges = True\<rparr>
      \<lparr>clock = 0, next_timer = 0, timers = [], cleanup = None,
        lastDeps = Some (0, False, False, False), fired = []\<rparr>) = []
   \<and> timers (autoSaveEffect
      \<lparr>userPlan = \<lparr>plan_id = ''default-plan'', income = [], expenses = [], goals = []\<rparr>,
        loading = \<lparr>isLoading = False, isSaving = False, isLoadingIncome = False,
          isLoadingExpenses = False, isLoadingGoals = False, isLoadingForecast = False\<rparr>,
        error = (\<lambda>k. None), hasUnsavedChanges = True\<rparr>
      \<lparr>clock = 0, next_timer = 0, timers = [], cleanup = None,
        lastDeps = Some (0, False, False, False), fired = []\<rparr>) = []"
  using auto_save_eligibility [of
      "\<lparr>userPlan = \<lparr>plan_id = ''default-plan'',
          income = [[''id'' \<mapsto> JString ''income-1'', ''amount'' \<mapsto> JNumber 100]],
          expenses = [], goals = []\<rparr>,
        loading = \<lparr>isLoading = False, isSaving = False, isLoadingIncome = False,
          isLoadingExpenses = False, isLoadingGoals = False, isLoadingForecast = False\<rparr>,
        error = (\<lambda>k. None), hasUnsavedChanges = True\<rparr>"
      "\<lparr>clock = 0, next_timer = 0, timers = [], cleanup = None,
        lastDeps = Some (0, False, False, False), fired = []\<rparr>"]
    auto_save_eligibility [of
      "\<lparr>userPlan = \<lparr>plan_id = ''default-plan'',
          income = [[''id'' \<mapsto> JString ''income-1'', ''amount'' \<mapsto> JNumber 100]],
          expenses = [], goals = []\<rparr>,
        loading = \<lparr>isLoading = False, isSaving = True, isLoadingIncome = False,
          isLoadingExpenses = False, isLoadingGoals = False, isLoadingForecast = False\<rparr>,
        error = (\<lambda>k. None), hasUnsavedChanges = True\<rparr>"
      "\<lparr>clock = 0, next_timer = 0, timers = [], cleanup = None,
        lastDeps = Some (0, False, False, False), fired = []\<rparr>"]
    auto_save_eligibility [of
      "\<lparr>userPlan = \<lparr>plan_id = ''default-plan'', income = [], expenses = [], goals = []\<rparr>,
        loading = \<lparr>isLoading = False, isSaving = False, isLoadingIncome = False,
          isLoadingExpenses = False, isLoadingGoals = False, isLoadingForecast = False\<rparr>,
        error = (\<lambda>k. None), hasUnsavedChanges = True\<rparr>"
      "\<lparr>clock = 0, next_timer = 0, timers = [], cleanup = None,
        lastDeps = Some (0, False, False, False), fired = []\<rparr>"]
  by (simp add: hasDefaultState_def)

subsection \<open>Debounce\<close>

lemma render_rerun:
  assumes "settled tRun s d sch" "clock sch \<le> t'" "t' < tRun + 1000" "autoSaveDeps r' s' \<noteq> d"
  shows "settled t' s' (autoSaveDeps r' s') (rerender r' s' (advance sv t' sch))"
    and "clock (rerender r' s' (advance sv t' sch)) \<le> t'"
    and "fired (rerender r' s' (advance sv t' sch)) = fired sch"
  using assms
  by (cases "eligible s"; cases "eligible s'";
      simp add: settled_def rerender_def runCleanup_def clearTimeout_def advance_def
        autoSaveEffect_eligible autoSaveEffect_not_eligible split: option.splits)+

lemma render_skip:
  assumes "settled tRun s d sch" "clock sch \<le> t'" "t' < tRun + 1000" "autoSaveDeps r' s' = d"
  shows "settled tRun s d (rerender r' s' (advance sv t' sch))"
    and "clock (rerender r' s' (advance sv t' sch)) \<le> t'"
    and "fired (rerender r' s' (advance sv t' sch)) = fired sch"
  using assms
  by (cases "eligible s"; simp add: settled_def rerender_def advance_def)+

lemma render_first:
  assumes "timers sch = []" "clock sch \<le> t" "lastDeps sch \<noteq> Some (autoSaveDeps r s)"
  shows "settled t s (autoSaveDeps r s) (rerender r s (advance sv t sch))"
    and "clock (rerender r s (advance sv t sch)) \<le> t"
    and "fired (rerender r s (advance sv t sch)) = fired sch"
  using assms
  by (cases "eligible s";
      simp add: settled_def rerender_def runCleanup_def clearTimeout_def advance_def
        autoSaveEffect_eligible autoSaveEffect_not_eligible split: option.splits)+

lemma burst_settles:
  assumes "settled (fst ev) (snd (snd ev)) (depsOf ev) sch" "clock sch \<le> tPrev"
    "withinWindow (fst ev) tPrev (depsOf ev) rest"
  shows "settled (fst (lastRun ev rest)) (snd (snd (lastRun ev rest))) (depsOf (lastRun ev rest))
           (mutations sv rest sch)
         \<and> fired (mutations sv rest sch) = fired sch"
  using assms
proof (induction rest arbitrary: ev tPrev sch)
  case Nil
  then show ?case by simp
next
  case (Cons ev' rest)
  obtain t' r' s' where ev': "ev' = (t', r', s')" by (cases ev')
  let ?sch = "rerender r' s' (advance sv t' sch)"
  from Cons.prems(3) ev' have w: "tPrev \<le> t'" "t' < fst ev + 1000" by simp_all
  with Cons.prems(2) have c: "clock sch \<le> t'" by simp
  show ?case
  proof (cases "depsOf ev' = depsOf ev")
    case True
    then have d: "autoSaveDeps r' s' = depsOf ev" using ev' by (simp add: depsOf_def)
    from Cons.prems(3) True ev' have ww: "withinWindow (fst ev) t' (depsOf ev) rest" by simp
    have st: "settled (fst ev) (snd (snd ev)) (depsOf ev) ?sch" "clock ?sch \<le> t'"
        "fired ?sch = fired sch"
      using render_skip [OF Cons.prems(1) c w(2) d] by simp_all
    from Cons.IH [OF st(1) st(2) ww] st(3) True ev' show ?thesis by simp
  next
    case False
    then have d: "autoSaveDeps r' s' \<noteq> depsOf ev" using ev' by (simp add: depsOf_def)
    from Cons.prems(3) False ev' have ww: "withinWindow (fst ev') t' (depsOf ev') rest" by simp
    have st: "settled (fst ev') (snd (snd ev')) (depsOf ev') ?sch" "clock ?sch \<le> t'"
        "fired ?sch = fired sch"
      using render_rerun [OF Cons.prems(1) c w(2) d] ev' by (simp_all add: depsOf_def)
    from Cons.IH [OF st(1) st(2) ww] st(3) False ev' show ?thesis by simp
  qed
qed

lemma lastRun_deps: "depsOf (lastRun ev rest) = depsOf (last (ev # rest))"
proof (induction rest arbitrary: ev)
  case Nil
  then show ?case by simp
next
  case (Cons ev' rest)
  show ?case
  proof (cases "depsOf ev' = depsOf ev")
    case True
    with Cons.IH [of ev] show ?thesis by (cases rest) simp_all
  next
    case False
    with Cons.IH [of ev'] show ?thesis by simp
  qed
qed

lemma lastRun_mem: "lastRun ev rest \<in> set (ev # rest)"
proof (induction rest arbitrary: ev)
  case Nil
  then show ?case by simp
next
  case (Cons ev' rest)
  from Cons.IH [of ev] Cons.IH [of ev'] show ?case by auto
qed

lemma lastRun_time:
  assumes "withinWindow (fst ev) tPrev (depsOf ev) rest" "fst ev \<le> tPrev"
  shows "fst (lastRun ev rest) \<le> last (tPrev # map fst rest)"
  using assms
proof (induction rest arbitrary: ev tPrev)
  case Nil
  then show ?case by simp
next
  case (Cons ev' rest)
  from Cons.prems have w: "tPrev \<le> fst ev'" by simp
  show ?case
  proof (cases "depsOf ev' = depsOf ev")
    case True
    with Cons.prems have ww: "withinWindow (fst ev) (fst ev') (depsOf ev) rest" by simp
    from Cons.prems(2) w have "fst ev \<le> fst ev'" by simp
    from Cons.IH [OF ww this] True show ?thesis by simp
  next
    case False
    with Cons.prems have ww: "withinWindow (fst ev') (fst ev') (depsOf ev') rest" by simp
    from Cons.IH [OF ww] False show ?thesis by simp
  qed
qed

lemma saveCalls_append: "saveCalls (xs @ ys) = saveCalls xs @ saveCalls ys"
  by (induction xs rule: saveCalls.induct) simp_all

lemma saveData_saveCalls: "saveCalls (effects (saveData sv s)) = [userPlan s]"
  by (cases "sv (userPlan s)") (simp_all add: saveData_def awaitSave_def run_defs)

lemma quiet_period:
  assumes "settled t s d sch" "t + 1000 \<le> T"
  shows "saveCalls (fired (advance sv T sch)) =
           saveCalls (fired sch) @ (if eligible s then [userPlan s] else [])"
    and "timers (advance sv T sch) = []"
  using assms
  by (cases "eligible s"; simp add: settled_def advance_def saveCalls_append saveData_saveCalls)+

lemma no_early_save:
  assumes "settled t s d sch" "T < t + 1000"
  shows "fired (advance sv T sch) = fired sch"
  using assms
  by (cases "eligible s"; simp add: settled_def advance_def)

text \<open>
  C5 (amended). The effect is re-evaluated by a state change that alters the Plan
  object, \<^verbatim>\<open>hasUnsavedChanges\<close>, \<^verbatim>\<open>isLoading\<close> or \<^verbatim>\<open>isSaving\<close>, as every mutation
  does, and by no other. Start with no timer pending and let the state change in a
  burst that begins with such a change, each change less than 1000 ms after the latest
  re-evaluation (for mutations: less than 1000 ms after the one before). Each
  re-evaluation clears the timer of the previous one, so no save is called during the
  burst, and after it the only timer that can be pending is the one of the last
  re-evaluation, due 1000 ms after it; before that moment no save is called. From that
  moment on no timer is pending and exactly one storage save has been called, with the
  Plan of the last re-evaluation, provided its state passes the guard of the effect
  (C4); if it does not, no timer is pending after the burst and no save is called at
  all. The last re-evaluation is not later than the last change and has the Plan object
  and the three flags of the last change, so the Plan saved is the Plan as of the last
  change.
\<close>

theorem debounced_auto_save:
  "timers sch = [] \<and> clock sch \<le> t \<and> lastDeps sch \<noteq> Some (autoSaveDeps r s)
   \<and> withinWindow t t (autoSaveDeps r s) rest \<longrightarrow>
     fired (mutations sv ((t, r, s) # rest) sch) = fired sch
     \<and> map (\<lambda>tm. (fire_at tm, closure tm)) (timers (mutations sv ((t, r, s) # rest) sch)) =
           (if \<not> hasDefaultState (snd (snd (lastRun (t, r, s) rest)))
               \<and> \<not> isLoading (loading (snd (snd (lastRun (t, r, s) rest))))
               \<and> \<not> isSaving (loading (snd (snd (lastRun (t, r, s) rest))))
               \<and> hasUnsavedChanges (snd (snd (lastRun (t, r, s) rest)))
            then [(fst (lastRun (t, r, s) rest) + 1000, snd (snd (lastRun (t, r, s) rest)))]
            else [])
     \<and> (\<forall>T. T < fst (lastRun (t, r, s) rest) + 1000 \<longrightarrow>
           fired (advance sv T (mutations sv ((t, r, s) # rest) sch)) = fired sch)
     \<and> (\<forall>T. fst (lastRun (t, r, s) rest) + 1000 \<le> T \<longrightarrow>
           timers (advance sv T (mutations sv ((t, r, s) # rest) sch)) = []
           \<and> saveCalls (fired (advance sv T (mutations sv ((t, r, s) # rest) sch))) =
               saveCalls (fired sch) @
                 (if \<not> hasDefaultState (snd (snd (lastRun (t, r, s) rest)))
                     \<and> \<not> isLoading (loading (snd (snd (lastRun (t, r, s) rest))))
                     \<and> \<not> isSaving (loading (snd (snd (lastRun (t, r, s) rest))))
                     \<and> hasUnsavedChanges (snd (snd (lastRun (t, r, s) rest)))
                  then [userPlan (snd (snd (lastRun (t, r, s) rest)))] else []))
     \<and> depsOf (lastRun (t, r, s) rest) = depsOf (last ((t, r, s) # rest))
     \<and> fst (lastRun (t, r, s) rest) \<le> fst (last ((t, r, s) # rest))
     \<and> (sameObjectSamePlan ((t, r, s) # rest) \<longrightarrow>
           userPlan (snd (snd (lastRun (t, r, s) rest)))
             = userPlan (snd (snd (last ((t, r, s) # rest)))))"
proof (intro impI)
  assume a: "timers sch = [] \<and> clock sch \<le> t \<and> lastDeps sch \<noteq> Some (autoSaveDeps r s)
   \<and> withinWindow t t (autoSaveDeps r s) rest"
  let ?ev = "(t, r, s)"
  let ?first = "rerender r s (advance sv t sch)"
  let ?run = "lastRun ?ev rest"
  let ?tN = "fst ?run"
  let ?sN = "snd (snd ?run)"
  let ?end = "mutations sv (?ev # rest) sch"
  let ?guard = "\<not> hasDefaultState ?sN \<and> \<not> isLoading (loading ?sN)
      \<and> \<not> isSaving (loading ?sN) \<and> hasUnsavedChanges ?sN"
  have d: "depsOf ?ev = autoSaveDeps r s" by (simp add: depsOf_def)
  have first: "settled t s (depsOf ?ev) ?first" "clock ?first \<le> t" "fired ?first = fired sch"
    using a render_first [of sch t r s sv] d by simp_all
  have w: "withinWindow (fst ?ev) t (depsOf ?ev) rest" using a d by simp
  have burst: "settled ?tN ?sN (depsOf ?run) (mutations sv rest ?first)"
      "fired (mutations sv rest ?first) = fired ?first"
    using burst_settles [of ?ev ?first t rest sv] first w by simp_all
  have e: "?end = mutations sv rest ?first" by simp
  have el: "eligible ?sN = ?guard"
    by (simp add: eligible_def hasRealData_iff)
  have fr: "fired ?end = fired sch"
    unfolding e using burst(2) first(3) by simp
  have pend: "map (\<lambda>tm. (fire_at tm, closure tm)) (timers ?end) =
      (if ?guard then [(?tN + 1000, ?sN)] else [])"
    using burst(1) el unfolding e settled_def by (simp split: if_splits)
  have early: "\<forall>T. T < ?tN + 1000 \<longrightarrow> fired (advance sv T ?end) = fired sch"
    using no_early_save [OF burst(1), of _ sv] fr unfolding e by simp
  have late: "\<forall>T. ?tN + 1000 \<le> T \<longrightarrow>
      timers (advance sv T ?end) = []
      \<and> saveCalls (fired (advance sv T ?end)) =
          saveCalls (fired sch) @ (if ?guard then [userPlan ?sN] else [])"
    using quiet_period [OF burst(1), of _ sv] fr el unfolding e by simp
  have deps: "depsOf ?run = depsOf (last (?ev # rest))"
    by (rule lastRun_deps)
  have "?tN \<le> last (t # map fst rest)"
    using lastRun_time [of ?ev t rest] w by simp
  also have "last (t # map fst rest) = fst (last (?ev # rest))"
    by (simp add: last_map)
  finally have time: "?tN \<le> fst (last (?ev # rest))" .
  have plan: "sameObjectSamePlan (?ev # rest) \<longrightarrow>
      userPlan ?sN = userPlan (snd (snd (last (?ev # rest))))"
  proof
    assume c: "sameObjectSamePlan (?ev # rest)"
    have m1: "?run \<in> set (?ev # rest)" by (rule lastRun_mem)
    have m2: "last (?ev # rest) \<in> set (?ev # rest)" by (rule last_in_set) simp
    from deps have "fst (snd ?run) = fst (snd (last (?ev # rest)))"
      by (simp add: depsOf_def autoSaveDeps_def)
    with c m1 m2 show "userPlan ?sN = userPlan (snd (snd (last (?ev # rest))))"
      unfolding sameObjectSamePlan_def by blast
  qed
  from fr pend early late deps time plan
  show "fired ?end = fired sch
     \<and> map (\<lambda>tm. (fire_at tm, closure tm)) (timers ?end) =
           (if ?guard then [(?tN + 1000, ?sN)] else [])
     \<and> (\<forall>T. T < ?tN + 1000 \<longrightarrow> fired (advance sv T ?end) = fired sch)
     \<and> (\<forall>T. ?tN + 1000 \<le> T \<longrightarrow>
           timers (advance sv T ?end) = []
           \<and> saveCalls (fired (advance sv T ?end)) =
               saveCalls (fired sch) @ (if ?guard then [userPlan ?sN] else []))
     \<and> depsOf ?run = depsOf (last (?ev # rest))
     \<and> ?tN \<le> fst (last (?ev # rest))
     \<and> (sameObjectSamePlan (?ev # rest) \<longrightarrow>
           userPlan ?sN = userPlan (snd (snd (last (?ev # rest)))))"
    by blast
qed

text \<open>
  An income added at 100 ms, an expense added at 400 ms, and at 700 ms an update that
  is rejected and leaves the Plan and the three flags as they are: the timer set at
  400 ms stays, nothing has been saved by 1399 ms, and by 1400 ms the storage has been
  called once, with the Plan that holds both entities.
\<close>

theorem debounced_auto_save_witness:
  "fired (advance (\<lambda>p. Inr p) 1399 (mutations (\<lambda>p. Inr p)
      [(100, 1, \<lparr>userPlan = \<lparr>plan_id = ''default-plan'',
          income = [[''id'' \<mapsto> JString ''income-1'', ''amount'' \<mapsto> JNumber 100]],
          expenses = [], goals = []\<rparr>,
        loading = \<lparr>isLoading = False, isSaving = False, isLoadingIncome = False,
          isLoadingExpenses = False, isLoadingGoals = False, isLoadingForecast = False\<rparr>,
        error = (\<lambda>k. None), hasUnsavedChanges = True\<rparr>),
       (400, 2, \<lparr>userPlan = \<lparr>plan_id = ''default-plan'',
          income = [[''id'' \<mapsto> JString ''income-1'', ''amount'' \<mapsto> JNumber 100]],
          expenses = [[''id'' \<mapsto> JString ''expense-1'', ''amount'' \<mapsto> JNumber 40]],
          goals = []\<rparr>,
        loading = \<lparr>isLoading = False, isSaving = False, isLoadingIncome = False,
          isLoadingExpenses = False, isLoadingGoals = False, isLoadingForecast = False\<rparr>,
        error = (\<lambda>k. None), hasUnsavedChanges = True\<rparr>),
       (700, 2, \<lparr>userPlan = \<lparr>plan_id = ''default-plan'',
          income = [[''id'' \<mapsto> JString ''income-1'', ''amount'' \<mapsto> JNumber 100]],
          expenses = [[''id'' \<mapsto> JString ''expense-1'', ''amount'' \<mapsto> JNumber 40]],
          goals = []\<rparr>,
        loading = \<lparr>isLoading = False, isSaving = False, isLoadingIncome = False,
          isLoadingExpenses = False, isLoadingGoals = False, isLoadingForecast = False\<rparr>,
        error = [expenseError \<mapsto> ''Expense not found''], hasUnsavedChanges = True\<rparr>)]
      \<lparr>clock = 0, next_timer = 0, timers = [], cleanup = None,
        lastDeps = Some (0, False, False, False), fired = []\<rparr>)) = []
   \<and> saveCalls (fired (advance (\<lambda>p. Inr p) 1400 (mutations (\<lambda>p. Inr p)
      [(100, 1, \<lparr>userPlan = \<lparr>plan_id = ''default-plan'',
          income = [[''id'' \<mapsto> JString ''income-1'', ''amount'' \<mapsto> JNumber 100]],
          expenses = [], goals = []\<rparr>,
        loading = \<lparr>isLoading = False, isSaving = False, isLoadingIncome = False,
          isLoadingExpenses = False, isLoadingGoals = False, isLoadingForecast = False\<rparr>,
        error = (\<lambda>k. None), hasUnsavedChanges = True\<rparr>),
       (400, 2, \<lparr>userPlan = \<lparr>plan_id = ''default-plan'',
          income = [[''id'' \<mapsto> JString ''income-1'', ''amount'' \<mapsto> JNumber 100]],
          expenses = [[''id'' \<mapsto> JString ''expense-1'', ''amount'' \<mapsto> JNumber 40]],
          goals = []\<rparr>,
        loading = \<lparr>isLoading = False, isSaving = False, isLoadingIncome = False,
          isLoadingExpenses = False, isLoadingGoals = False, isLoadingForecast = False\<rparr>,
        error = (\<lambda>k. None), hasUnsavedChanges = True\<rparr>),
       (700, 2, \<lparr>userPlan = \<lparr>plan_id = ''default-plan'',
          income = [[''id'' \<mapsto> JString ''income-1'', ''amount'' \<mapsto> JNumber 100]],
          expenses = [[''id'' \<mapsto> JString ''expense-1'', ''amount'' \<mapsto> JNumber 40]],
          goals = []\<rparr>,
        loading = \<lparr>isLoading = False, isSaving = False, isLoadingIncome = False,
          isLoadingExpenses = False, isLoadingGoals = False, isLoadingForecast = False\<rparr>,
        error = [expenseError \<mapsto> ''Expense not found''], hasUnsavedChanges = True\<rparr>)]
      \<lparr>clock = 0, next_timer = 0, timers = [], cleanup = None,
        lastDeps = Some (0, False, False, False), fired = []\<rparr>)))
     = [\<lparr>plan_id = ''default-plan'',
          income = [[''id'' \<mapsto> JString ''income-1'', ''amount'' \<mapsto> JNumber 100]],
          expenses = [[''id'' \<mapsto> JString ''expense-1'', ''amount'' \<mapsto> JNumber 40]],
          goals = []\<rparr>]"
  (is "fired (advance ?sv _ (mutations _ ((_, _, ?s1) # ?rest) ?sch)) = [] \<and> _")
proof -
  have run: "lastRun (100, 1, ?s1) ?rest
      = (400, 2, \<lparr>userPlan = \<lparr>plan_id = ''default-plan'',
          income = [[''id'' \<mapsto> JString ''income-1'', ''amount'' \<mapsto> JNumber 100]],
          expenses = [[''id'' \<mapsto> JString ''expense-1'', ''amount'' \<mapsto> JNumber 40]],
          goals = []\<rparr>,
        loading = \<lparr>isLoading = False, isSaving = False, isLoadingIncome = False,
          isLoadingExpenses = False, isLoadingGoals = False, isLoadingForecast = False\<rparr>,
        error = (\<lambda>k. None), hasUnsavedChanges = True\<rparr>)"
    by (simp add: depsOf_def autoSaveDeps_def)
  have hyp: "timers ?sch = [] \<and> clock ?sch \<le> 100
      \<and> lastDeps ?sch \<noteq> Some (autoSaveDeps 1 ?s1)
      \<and> withinWindow 100 100 (autoSaveDeps 1 ?s1) ?rest"
    by (simp add: depsOf_def autoSaveDeps_def)
  from debounced_auto_save [of ?sch 100 1 ?s1 ?rest ?sv] hyp
  have early: "(\<forall>T. T < fst (lastRun (100, 1, ?s1) ?rest) + 1000 \<longrightarrow>
           fired (advance ?sv T (mutations ?sv ((100, 1, ?s1) # ?rest) ?sch)) = fired ?sch)"
    and late: "(\<forall>T. fst (lastRun (100, 1, ?s1) ?rest) + 1000 \<le> T \<longrightarrow>
           saveCalls (fired (advance ?sv T (mutations ?sv ((100, 1, ?s1) # ?rest) ?sch))) =
               saveCalls (fired ?sch) @
                 (if \<not> hasDefaultState (snd (snd (lastRun (100, 1, ?s1) ?rest)))
                     \<and> \<not> isLoading (loading (snd (snd (lastRun (100, 1, ?s1) ?rest))))
                     \<and> \<not> isSaving (loading (snd (snd (lastRun (100, 1, ?s1) ?rest))))
                     \<and> hasUnsavedChanges (snd (snd (lastRun (100, 1, ?s1) ?rest)))
                  then [userPlan (snd (snd (lastRun (100, 1, ?s1) ?rest)))] else []))"
    by blast+
  from early [unfolded run, rule_format, of 1399] late [unfolded run, rule_format, of 1400]
  show ?thesis
    by (simp add: hasDefaultState_def)
qed

text \<open>
  The claim as first stated has every burst end in exactly one save. Add an income to
  the default Plan at 100 ms and delete it again at 400 ms: the second change clears
  the timer of the first, the Plan is back in the default shape, the guard fails, and
  by 5000 ms no save has been called, although the unsaved-changes flag is set.
\<close>

theorem debounced_auto_save_counterexample:
  "saveCalls (fired (advance (\<lambda>p. Inr p) 5000 (mutations (\<lambda>p. Inr p)
      [(100, 1, \<lparr>userPlan = \<lparr>plan_id = ''default-plan'',
          income = [[''id'' \<mapsto> JString ''income-1'', ''amount'' \<mapsto> JNumber 100]],
          expenses = [], goals = []\<rparr>,
        loading = \<lparr>isLoading = False, isSaving = False, isLoadingIncome = False,
          isLoadingExpenses = False, isLoadingGoals = False, isLoadingForecast = False\<rparr>,
        error = (\<lambda>k. None), hasUnsavedChanges = True\<rparr>),
       (400, 2, \<lparr>userPlan = \<lparr>plan_id = ''default-plan'', income = [], expenses = [], goals = []\<rparr>,
        loading = \<lparr>isLoading = False, isSaving = False, isLoadingIncome = False,
          isLoadingExpenses = False, isLoadingGoals = False, isLoadingForecast = False\<rparr>,
        error = (\<lambda>k. None), hasUnsavedChanges = True\<rparr>)]
      \<lparr>clock = 0, next_timer = 0, timers = [], cleanup = None,
        lastDeps = Some (0, False, False, False), fired = []\<rparr>))) = []"
  by (simp add: rerender_def runCleanup_def clearTimeout_def advance_def autoSaveEffect_def
      setTimeout_def hasRealData_def autoSaveDeps_def)

text \<open>
  With the reducer above, adding an income to the default Plan and deleting it again is
  a way to reach such a state: the Plan has the default shape and the unsaved-changes
  flag is set.
\<close>

lemma add_then_delete_has_default_state:
  "hasDefaultState (stateAfter (stateAfter
      \<lparr>userPlan = \<lparr>plan_id = ''default-plan'', income = [], expenses = [], goals = []\<rparr>,
        loading = \<lparr>isLoading = False, isSaving = False, isLoadingIncome = False,
          isLoadingExpenses = False, isLoadingGoals = False, isLoadingForecast = False\<rparr>,
        error = (\<lambda>k. None), hasUnsavedChanges = False\<rparr>
      (addIncome
        \<lparr>date_now = 1700000000000, random_base36 = ''0.4fzyo82mvyr'',
          iso_first = ''2023-11-14T22:13:20.000Z'', iso_second = ''2023-11-14T22:13:20.000Z''\<rparr>
        [''amount'' \<mapsto> JNumber 100, ''source'' \<mapsto> JString ''job'']))
      (deleteIncome ''income-1700000000000-4fzyo82mv''))
   \<and> hasUnsavedChanges (stateAfter (stateAfter
      \<lparr>userPlan = \<lparr>plan_id = ''default-plan'', income = [], expenses = [], goals = []\<rparr>,
        loading = \<lparr>isLoading = False, isSaving = False, isLoadingIncome = False,
          isLoadingExpenses = False, isLoadingGoals = False, isLoadingForecast = False\<rparr>,
        error = (\<lambda>k. None), hasUnsavedChanges = False\<rparr>
      (addIncome
        \<lparr>date_now = 1700000000000, random_base36 = ''0.4fzyo82mvyr'',
          iso_first = ''2023-11-14T22:13:20.000Z'', iso_second = ''2023-11-14T22:13:20.000Z''\<rparr>
        [''amount'' \<mapsto> JNumber 100, ''source'' \<mapsto> JString ''job'']))
      (deleteIncome ''income-1700000000000-4fzyo82mv''))"
  by (simp add: stateAfter_def effects_def addIncome_run deleteIncome_run hasDefaultState_def
      hasId_def newEntity_def generateId_def number_string_def substr_def digit_char_def
      map_add_def)

text \<open>
  With the same reducer, an update that is rejected for a missing identifier changes
  neither the Plan nor the three flags the effect depends on.
\<close>

lemma rejected_update_keeps_dependencies:
  assumes "\<forall>x\<in>set (expenses (userPlan s)). x ''id'' \<noteq> i ''id''"
  shows "userPlan (stateAfter s (updateExpense e s i)) = userPlan s
    \<and> hasUnsavedChanges (stateAfter s (updateExpense e s i)) = hasUnsavedChanges s
    \<and> isLoading (loading (stateAfter s (updateExpense e s i))) = isLoading (loading s)
    \<and> isSaving (loading (stateAfter s (updateExpense e s i))) = isSaving (loading s)"
  using assms
  by (simp add: updateExpense_missing find_None_absent stateAfter_def effects_def)

end
